theory Spec2Isabelle
  imports Complex_Main
begin

section \<open>The numerical and language substrate\<close>

subsection \<open>Python exceptions\<close>

text \<open>
  Every \<^verbatim>\<open>raise\<close> of \<^verbatim>\<open>choice_learn/models/base_model.py\<close>, and every exception
  the interpreter or the tensor library raises on the paths modelled here, is a value.
  \<open>NameError\<close> also stands for its subclass \<open>UnboundLocalError\<close>;
  \<open>InvalidArgumentError\<close> is TensorFlow's.
\<close>

datatype py_error =
    ValueError
  | TypeError
  | AttributeError
  | NameError
  | IndexError
  | InvalidArgumentError

subsection \<open>Floating-point values\<close>

text \<open>
  A float is a real number or one of the IEEE special values. Rounding and the sign of
  zero are not modelled: finite arithmetic is exact. The range of the floats is modelled
  where the code exponentiates, in \<open>fl_exp\<close> and in the prior over the latent classes
  that is built from it (\<open>fl_range\<close> below); the sums and products of losses are taken
  to stay in range.
\<close>

datatype fl = Fin real | PInf | NInf | NaN

text \<open>The zero that fills a fresh tensor.\<close>

instantiation fl :: zero
begin

definition zero_fl :: fl where
  "zero_fl = Fin 0"

instance ..

end

fun isnan :: "fl \<Rightarrow> bool" where
  "isnan NaN = True"
| "isnan _ = False"

fun is_fin :: "fl \<Rightarrow> bool" where
  "is_fin (Fin _) = True"
| "is_fin _ = False"

fun fl_add :: "fl \<Rightarrow> fl \<Rightarrow> fl" where
  "fl_add (Fin a) (Fin b) = Fin (a + b)"
| "fl_add NaN _ = NaN"
| "fl_add _ NaN = NaN"
| "fl_add PInf NInf = NaN"
| "fl_add NInf PInf = NaN"
| "fl_add PInf _ = PInf"
| "fl_add _ PInf = PInf"
| "fl_add NInf _ = NInf"
| "fl_add _ NInf = NInf"

fun fl_neg :: "fl \<Rightarrow> fl" where
  "fl_neg (Fin a) = Fin (- a)"
| "fl_neg PInf = NInf"
| "fl_neg NInf = PInf"
| "fl_neg NaN = NaN"

fun fl_signed_inf :: "real \<Rightarrow> fl" where
  "fl_signed_inf a = (if a = 0 then NaN else if 0 < a then PInf else NInf)"

fun fl_mul :: "fl \<Rightarrow> fl \<Rightarrow> fl" where
  "fl_mul (Fin a) (Fin b) = Fin (a * b)"
| "fl_mul NaN _ = NaN"
| "fl_mul _ NaN = NaN"
| "fl_mul (Fin a) PInf = fl_signed_inf a"
| "fl_mul PInf (Fin a) = fl_signed_inf a"
| "fl_mul (Fin a) NInf = fl_signed_inf (- a)"
| "fl_mul NInf (Fin a) = fl_signed_inf (- a)"
| "fl_mul PInf PInf = PInf"
| "fl_mul NInf NInf = PInf"
| "fl_mul PInf NInf = NInf"
| "fl_mul NInf PInf = NInf"

fun fl_div :: "fl \<Rightarrow> fl \<Rightarrow> fl" where
  "fl_div (Fin a) (Fin b) = (if b = 0 then fl_signed_inf a else Fin (a / b))"
| "fl_div NaN _ = NaN"
| "fl_div _ NaN = NaN"
| "fl_div (Fin a) PInf = Fin 0"
| "fl_div (Fin a) NInf = Fin 0"
| "fl_div PInf (Fin b) = (if 0 \<le> b then PInf else NInf)"
| "fl_div NInf (Fin b) = (if 0 \<le> b then NInf else PInf)"
| "fl_div PInf PInf = NaN"
| "fl_div PInf NInf = NaN"
| "fl_div NInf PInf = NaN"
| "fl_div NInf NInf = NaN"

text \<open>
  The range of \<^verbatim>\<open>float32\<close>, the type of \<^verbatim>\<open>tf.constant(1.0)\<close> and of the variable
  \<^verbatim>\<open>latent_logits\<close>: \<open>float_max\<close> is the largest finite value, \<open>float_tiny\<close> the
  smallest positive one. A result beyond \<open>float_max\<close> is an infinity, and one nearer to
  zero than \<open>float_tiny\<close> is zero.
\<close>

definition float_max :: real where
  "float_max = (2 - 1 / 2 ^ 23) * 2 ^ 127"

definition float_tiny :: real where
  "float_tiny = 1 / 2 ^ 149"

fun fl_range :: "fl \<Rightarrow> fl" where
  "fl_range (Fin a) =
     (if float_max < a then PInf
      else if a < - float_max then NInf
      else if \<bar>a\<bar> < float_tiny then Fin 0
      else Fin a)"
| "fl_range PInf = PInf"
| "fl_range NInf = NInf"
| "fl_range NaN = NaN"

text \<open>\<^verbatim>\<open>tf.math.exp\<close>: it overflows to infinity and underflows to zero.\<close>

fun fl_exp :: "fl \<Rightarrow> fl" where
  "fl_exp (Fin a) = fl_range (Fin (exp a))"
| "fl_exp PInf = PInf"
| "fl_exp NInf = Fin 0"
| "fl_exp NaN = NaN"

fun fl_log :: "fl \<Rightarrow> fl" where
  "fl_log (Fin a) = (if 0 < a then Fin (ln a) else if a = 0 then NInf else NaN)"
| "fl_log PInf = PInf"
| "fl_log NInf = NaN"
| "fl_log NaN = NaN"

definition fl_of_nat :: "nat \<Rightarrow> fl" where
  "fl_of_nat n = Fin (real n)"

definition fl_of_int :: "int \<Rightarrow> fl" where
  "fl_of_int i = Fin (real_of_int i)"

text \<open>\<^verbatim>\<open>tf.reduce_sum\<close> / \<^verbatim>\<open>np.sum\<close> of a vector, and \<^verbatim>\<open>tf.reduce_mean\<close>: the mean of
  no element is \<open>0 / 0\<close>, a NaN.\<close>

definition reduce_sum :: "fl list \<Rightarrow> fl" where
  "reduce_sum xs = foldr fl_add xs (Fin 0)"

definition reduce_mean :: "fl list \<Rightarrow> fl" where
  "reduce_mean xs = fl_div (reduce_sum xs) (fl_of_nat (length xs))"

subsection \<open>Strings\<close>

text \<open>
  \<^verbatim>\<open>str.lower()\<close>. A \<open>string\<close> is the UTF-8 encoding of the Python string:
  the ASCII capitals are mapped to their small letters and every other byte is kept.
  (Python also lowers letters beyond ASCII, but none of them to a letter of the names
  the code compares with, so the comparisons of the code come out the same.)
\<close>

definition char_lower :: "char \<Rightarrow> char" where
  "char_lower c =
     (let n = (of_char c :: nat)
      in if 65 \<le> n \<and> n \<le> 90 then char_of (n + 32) else c)"

definition str_lower :: "string \<Rightarrow> string" where
  "str_lower s = map char_lower s"

section \<open>ChoiceModel\<close>

subsection \<open>The constructor\<close>

text \<open>The Keras optimizers the constructor can build, each with its learning rate.\<close>

datatype optimizer_kind = Adam real | SGD real | Adamax real

text \<open>
  The attributes \<^verbatim>\<open>ChoiceModel.__init__\<close> sets (lines 52--82). \<open>optimizer\<close> is
  \<open>None\<close> when the attribute is never assigned (the L-BFGS branch); \<open>fit_is_lbfgs\<close>
  says that \<^verbatim>\<open>self.fit\<close> was rebound to \<^verbatim>\<open>self._fit_with_lbfgs\<close>. The loss object
  and the callback list are built by external constructors and appear in the training
  substrate below. \<open>stop_training\<close> is the flag that callbacks set later.
\<close>

record choice_model_attrs =
  is_fitted :: bool
  normalize_non_buy :: bool
  label_smoothing :: real
  stop_training :: bool
  optimizer_name :: string
  optimizer :: "optimizer_kind option"
  fit_is_lbfgs :: bool
  epochs :: nat
  batch_size :: int
  tolerance :: real

text \<open>\<^verbatim>\<open>ChoiceModel.__init__\<close>: the object built and the lines printed.\<close>

definition ChoiceModel_init ::
  "real \<Rightarrow> bool \<Rightarrow> string \<Rightarrow> real \<Rightarrow> real \<Rightarrow> nat \<Rightarrow> int \<Rightarrow> choice_model_attrs \<times> string list" where
  "ChoiceModel_init label_smoothing_arg normalize_non_buy_arg optimizer_arg tolerance_arg lr
       epochs_arg batch_size_arg =
    (let self = \<lparr> is_fitted = False, normalize_non_buy = normalize_non_buy_arg,
                   label_smoothing = label_smoothing_arg, stop_training = False,
                   optimizer_name = optimizer_arg, optimizer = None, fit_is_lbfgs = False,
                   epochs = epochs_arg, batch_size = batch_size_arg,
                   tolerance = tolerance_arg \<rparr>
     in if str_lower optimizer_arg = ''adam'' then (self\<lparr>optimizer := Some (Adam lr)\<rparr>, [])
        else if str_lower optimizer_arg = ''sgd'' then (self\<lparr>optimizer := Some (SGD lr)\<rparr>, [])
        else if str_lower optimizer_arg = ''adamax'' then
          (self\<lparr>optimizer := Some (Adamax lr)\<rparr>, [])
        else if str_lower optimizer_arg = ''lbfgs'' \<or> str_lower optimizer_arg = ''l-bfgs'' then
          (self\<lparr>fit_is_lbfgs := True\<rparr>,
           [''Using L-BFGS optimizer, setting up .fit() function''])
        else
          (self\<lparr>optimizer := Some (Adam lr)\<rparr>,
           [''Optimizer '' @ optimizer_arg @ '' not implemnted, switching for default Adam'']))"

subsection \<open>The model object, the batches and the substrate\<close>

text \<open>
  A batch as \<^verbatim>\<open>ChoiceDataset.iter_batch\<close> yields it: the two feature blocks (kept
  abstract), the availability matrix (one row per choice) and the choices.
\<close>

record 'x batch =
  shared_features_batch :: 'x
  items_features_batch :: 'x
  available_items_batch :: "bool list list"
  choices_batch :: "nat list"

text \<open>
  The mutable state of a model object: the attributes of the constructor, the parameter
  tensors \<^verbatim>\<open>self.weights\<close>, the slots of \<^verbatim>\<open>self.optimizer\<close>, the state of the
  callbacks in \<^verbatim>\<open>self.callbacks\<close>, and \<^verbatim>\<open>self.instantiated\<close> where a subclass
  defines it (\<open>None\<close>: no such attribute).
\<close>

record ('w, 'o, 'c) choice_model =
  hyper :: choice_model_attrs
  weights :: 'w
  optimizer_state :: 'o
  callbacks_state :: 'c
  instantiated :: "bool option"

text \<open>The hooks of the Keras callback list that \<^verbatim>\<open>fit\<close> calls, with the index passed.\<close>

datatype hook =
    On_train_begin
  | On_epoch_begin nat
  | On_train_batch_begin nat
  | On_train_batch_end nat
  | On_batch_begin nat
  | On_test_batch_begin nat
  | On_test_batch_end nat
  | On_epoch_end nat
  | On_train_end

text \<open>What an observer of one \<^verbatim>\<open>fit\<close> call sees, in order: each hook called, and each
  read of \<^verbatim>\<open>self.stop_training\<close> with the value read.\<close>

datatype event = Hook hook | Read_stop_training bool

type_synonym logs = "(string \<times> fl) list"

text \<open>
  What the code calls and this file does not contain: the dataset
  (\<^verbatim>\<open>iter_batch\<close>, \<^verbatim>\<open>len\<close>), the abstract method \<^verbatim>\<open>compute_batch_utility\<close>,
  \<^verbatim>\<open>tf_ops.softmax_with_availabilities\<close>, the two loss objects, the gradient tape,
  the optimizer's update and the callback list. They are parameters of the model.
  \<^item> \<open>iter_batch d shuffle sample_weight batch_size k\<close> is the list of batches of the
    \<open>k\<close>-th pass over \<open>d\<close> (the pass matters when \<open>shuffle\<close> is set), each with its
    slice of the sample weights when \<open>sample_weight\<close> is given.
  \<^item> \<open>compute_batch_utility\<close> is a method of the object: it receives the object and
    returns it, so that a subclass that writes to it is within the model.
  \<^item> \<open>gradient\<close> is what the tape returns for the loss of \<^verbatim>\<open>train_step\<close> on a batch;
    \<open>gradient_dataset\<close> what it returns for the loss of \<^verbatim>\<open>evaluate\<close> on a dataset.
  \<^item> \<open>callbacks h logs\<close> runs hook \<open>h\<close> of every callback; the callbacks hold the
    object (\<^verbatim>\<open>set_model(self)\<close>) and may write to it.
\<close>

record ('w, 'o, 'c, 'x, 'd) substrate =
  iter_batch :: "'d \<Rightarrow> bool \<Rightarrow> fl list option \<Rightarrow> int \<Rightarrow> nat \<Rightarrow> ('x batch \<times> fl list option) list"
  len :: "'d \<Rightarrow> nat"
  compute_batch_utility ::
    "('w, 'o, 'c) choice_model \<Rightarrow> 'x batch \<Rightarrow> fl list list \<times> ('w, 'o, 'c) choice_model"
  softmax_with_availabilities :: "fl list list \<Rightarrow> bool list list \<Rightarrow> bool \<Rightarrow> fl list list"
  loss :: "fl list list \<Rightarrow> fl list list \<Rightarrow> fl list option \<Rightarrow> fl"
  categorical_crossentropy :: "fl list list \<Rightarrow> fl list list \<Rightarrow> fl list option \<Rightarrow> fl"
  gradient :: "('w, 'o, 'c) choice_model \<Rightarrow> 'x batch \<Rightarrow> fl list option \<Rightarrow> 'w"
  gradient_dataset :: "('w, 'o, 'c) choice_model \<Rightarrow> 'd \<Rightarrow> fl list option \<Rightarrow> 'w"
  apply_gradients :: "'o \<Rightarrow> 'w \<Rightarrow> 'w \<Rightarrow> 'o \<times> 'w"
  callbacks ::
    "hook \<Rightarrow> logs option \<Rightarrow> ('w, 'o, 'c) choice_model \<Rightarrow> ('w, 'o, 'c) choice_model"

text \<open>\<^verbatim>\<open>tf.one_hot(choices, depth)\<close> and \<^verbatim>\<open>probabilities.shape[1]\<close> on a matrix given
  by its rows.\<close>

definition one_hot :: "nat list \<Rightarrow> nat \<Rightarrow> fl list list" where
  "one_hot cs depth = map (\<lambda>c. map (\<lambda>j. if j = c then Fin 1 else Fin 0) [0..<depth]) cs"

definition shape1 :: "'a list list \<Rightarrow> nat" where
  "shape1 m = (case m of [] \<Rightarrow> 0 | r # _ \<Rightarrow> length r)"

subsection \<open>train_step and batch_predict\<close>

text \<open>
  \<^verbatim>\<open>ChoiceModel.train_step\<close> (lines 156--179). \<^verbatim>\<open>self.optimizer\<close> is not an attribute
  of an object built with an L-BFGS optimizer name.
\<close>

definition train_step ::
  "('w, 'o, 'c, 'x, 'd) substrate \<Rightarrow> ('w, 'o, 'c) choice_model \<Rightarrow> 'x batch \<Rightarrow> fl list option
     \<Rightarrow> (py_error + fl) \<times> ('w, 'o, 'c) choice_model" where
  "train_step E self b sample_weight =
    (let (utilities, self1) = compute_batch_utility E self b;
         probabilities = softmax_with_availabilities E utilities (available_items_batch b)
                           (normalize_non_buy (hyper self1));
         neg_loglikelihood = loss E probabilities
                               (one_hot (choices_batch b) (shape1 probabilities)) sample_weight;
         grads = gradient E self b sample_weight
     in case optimizer (hyper self1) of
          None \<Rightarrow> (Inl AttributeError, self1)
        | Some _ \<Rightarrow>
            (let (o', w') = apply_gradients E (optimizer_state self1) grads (weights self1)
             in (Inr neg_loglikelihood, self1\<lparr>weights := w', optimizer_state := o'\<rparr>)))"

text \<open>The dictionary of losses that \<^verbatim>\<open>batch_predict\<close> returns.\<close>

record batch_loss =
  optimized_loss :: fl
  NegativeLogLikelihood :: fl

text \<open>\<^verbatim>\<open>ChoiceModel.batch_predict\<close> (lines 407--436).\<close>

definition batch_predict ::
  "('w, 'o, 'c, 'x, 'd) substrate \<Rightarrow> ('w, 'o, 'c) choice_model \<Rightarrow> 'x batch \<Rightarrow> fl list option
     \<Rightarrow> (batch_loss \<times> fl list list) \<times> ('w, 'o, 'c) choice_model" where
  "batch_predict E self b sample_weight =
    (let (utilities, self1) = compute_batch_utility E self b;
         probabilities = softmax_with_availabilities E utilities (available_items_batch b)
                           (normalize_non_buy (hyper self1));
         y_true = one_hot (choices_batch b) (shape1 probabilities)
     in ((\<lparr> optimized_loss = loss E probabilities y_true sample_weight,
             NegativeLogLikelihood = categorical_crossentropy E probabilities y_true sample_weight \<rparr>,
          probabilities),
         self1))"

subsection \<open>The loss of an epoch\<close>

text \<open>
  Lines 307--315 of \<^verbatim>\<open>fit\<close>, and the same lines 555--563 of \<^verbatim>\<open>evaluate\<close>.
  \<open>last_batch\<close> is the local variable \<^verbatim>\<open>available_items_batch\<close> (\<open>None\<close> while no loop
  has bound it, and reading it raises); \<^verbatim>\<open>tf.ones\<close> refuses a negative size.
\<close>

definition epoch_loss ::
  "int \<Rightarrow> fl list \<Rightarrow> bool list list option \<Rightarrow> nat \<Rightarrow> py_error + fl" where
  "epoch_loss batch_size_arg epoch_losses last_batch len_dataset =
    (if batch_size_arg \<noteq> - 1 then
       (case last_batch of
          None \<Rightarrow> Inl NameError
        | Some avail \<Rightarrow>
            (let last_batch_size = length avail
             in if length epoch_losses = 0 then Inl InvalidArgumentError
                else
                  (let coefficients =
                         map (\<lambda>one. fl_mul one (fl_of_int batch_size_arg))
                             (replicate (length epoch_losses - 1) (Fin 1))
                         @ [fl_of_nat last_batch_size];
                       epoch_lossses = map2 fl_mul epoch_losses coefficients
                   in Inr (fl_div (reduce_sum epoch_lossses) (fl_of_nat len_dataset)))))
     else Inr (reduce_mean epoch_losses))"

subsection \<open>fit\<close>

text \<open>
  The state of one call of \<^verbatim>\<open>ChoiceModel.fit\<close> (lines 212--369): the object, the
  events so far, the dictionary \<^verbatim>\<open>losses_history\<close> (its key \<^verbatim>\<open>test_loss\<close> exists only
  once a validation pass has run), and the local variables that outlive a loop.
  \<open>last_available_items_batch\<close> is the variable \<^verbatim>\<open>available_items_batch\<close>, which both
  the training and the validation loop bind. Progress bars and the prints under
  \<^verbatim>\<open>verbose\<close> are left out. When \<^verbatim>\<open>fit\<close> raises, the object keeps what was written
  so far; the model returns the exception alone.
\<close>

record ('w, 'o, 'c) fit_state =
  self_obj :: "('w, 'o, 'c) choice_model"
  trace :: "event list"
  train_loss_history :: "fl list"
  test_loss_history :: "fl list option"
  last_available_items_batch :: "bool list list option"
  train_logs :: "(string \<times> fl list) list"
  val_logs :: "(string \<times> fl list) list"
  epoch_losses_var :: "fl list"
  test_losses_var :: "fl list"

text \<open>\<^verbatim>\<open>self.callbacks.on_...(...)\<close>: the callbacks run on the object.\<close>

definition fire ::
  "('w, 'o, 'c, 'x, 'd) substrate \<Rightarrow> hook \<Rightarrow> logs option \<Rightarrow> ('w, 'o, 'c) fit_state
     \<Rightarrow> ('w, 'o, 'c) fit_state" where
  "fire E h lg st = st\<lparr>self_obj := callbacks E h lg (self_obj st), trace := trace st @ [Hook h]\<rparr>"

text \<open>\<^verbatim>\<open>{k: tf.reduce_mean(v) for k, v in train_logs.items()}\<close>\<close>

definition temps_logs :: "(string \<times> fl list) list \<Rightarrow> logs" where
  "temps_logs lg = map (\<lambda>(k, v). (k, reduce_mean v)) lg"

text \<open>Appending to the list under a key that the dictionary has.\<close>

definition logs_append :: "string \<Rightarrow> fl \<Rightarrow> (string \<times> fl list) list \<Rightarrow> (string \<times> fl list) list" where
  "logs_append key x lg = map (\<lambda>(k, v). if k = key then (k, v @ [x]) else (k, v)) lg"

text \<open>The loop over the training batches (lines 248--272, and 285--303 without sample
  weights, where \<open>weight_batch\<close> is \<open>None\<close>).\<close>

fun train_batches ::
  "('w, 'o, 'c, 'x, 'd) substrate \<Rightarrow> nat \<Rightarrow> ('x batch \<times> fl list option) list
     \<Rightarrow> ('w, 'o, 'c) fit_state \<Rightarrow> py_error + ('w, 'o, 'c) fit_state" where
  "train_batches E batch_nb [] st = Inr st"
| "train_batches E batch_nb ((b, weight_batch) # rest) st =
    (let st1 = fire E (On_train_batch_begin batch_nb) None
                 (st\<lparr>last_available_items_batch := Some (available_items_batch b)\<rparr>)
     in case train_step E (self_obj st1) b weight_batch of
          (Inl e, _) \<Rightarrow> Inl e
        | (Inr neg_loglikelihood, self2) \<Rightarrow>
            (let st2 = st1\<lparr>self_obj := self2,
                           train_logs := logs_append ''train_loss'' neg_loglikelihood (train_logs st1)\<rparr>;
                 st3 = fire E (On_train_batch_end batch_nb) (Some (temps_logs (train_logs st2))) st2
             in train_batches E (Suc batch_nb) rest
                  (st3\<lparr>epoch_losses_var := epoch_losses_var st3 @ [neg_loglikelihood]\<rparr>)))"

text \<open>The loop over the validation batches (lines 329--347).\<close>

fun val_batches ::
  "('w, 'o, 'c, 'x, 'd) substrate \<Rightarrow> nat \<Rightarrow> ('x batch \<times> fl list option) list
     \<Rightarrow> ('w, 'o, 'c) fit_state \<Rightarrow> ('w, 'o, 'c) fit_state" where
  "val_batches E batch_nb [] st = st"
| "val_batches E batch_nb ((b, _) # rest) st =
    (let st1 = fire E (On_batch_begin batch_nb) None
                 (st\<lparr>last_available_items_batch := Some (available_items_batch b)\<rparr>);
         st2 = fire E (On_test_batch_begin batch_nb) None st1;
         ((bl, _), self3) = batch_predict E (self_obj st2) b None;
         st3 = st2\<lparr>self_obj := self3,
                   test_losses_var := test_losses_var st2 @ [optimized_loss bl]\<rparr>;
         st4 = st3\<lparr>val_logs := logs_append ''val_loss'' (last (test_losses_var st3)) (val_logs st3)\<rparr>;
         st5 = fire E (On_test_batch_end batch_nb) (Some (temps_logs (val_logs st4))) st4
     in val_batches E (Suc batch_nb) rest st5)"

text \<open>The start of the body of the epoch loop, through the loop over the training
  batches (lines 227--303).\<close>

definition train_epoch ::
  "('w, 'o, 'c, 'x, 'd) substrate \<Rightarrow> 'd \<Rightarrow> fl list option \<Rightarrow> int \<Rightarrow> nat
     \<Rightarrow> ('w, 'o, 'c) fit_state \<Rightarrow> py_error + ('w, 'o, 'c) fit_state" where
  "train_epoch E choice_dataset sample_weight batch_size_arg epoch_nb st =
    (let st0 = fire E (On_epoch_begin epoch_nb) None st;
         st1 = st0\<lparr>train_logs := [(''train_loss'', [])], val_logs := [(''val_loss'', [])],
                   epoch_losses_var := []\<rparr>;
         inner_range = iter_batch E choice_dataset True sample_weight batch_size_arg epoch_nb
     in train_batches E 0 inner_range st1)"

text \<open>The body of the epoch loop up to and including \<^verbatim>\<open>on_epoch_end\<close> (lines 227--359).\<close>

definition run_epoch ::
  "('w, 'o, 'c, 'x, 'd) substrate \<Rightarrow> 'd \<Rightarrow> fl list option \<Rightarrow> 'd option \<Rightarrow> int \<Rightarrow> nat
     \<Rightarrow> ('w, 'o, 'c) fit_state \<Rightarrow> py_error + ('w, 'o, 'c) fit_state" where
  "run_epoch E choice_dataset sample_weight val_dataset batch_size_arg epoch_nb st =
    (case train_epoch E choice_dataset sample_weight batch_size_arg epoch_nb st of
       Inl e \<Rightarrow> Inl e
     | Inr st2 \<Rightarrow>
         (case epoch_loss batch_size_arg (epoch_losses_var st2) (last_available_items_batch st2)
                 (len E choice_dataset) of
            Inl e \<Rightarrow> Inl e
          | Inr epoch_loss_value \<Rightarrow>
              (let st3 = st2\<lparr>train_loss_history := train_loss_history st2 @ [epoch_loss_value]\<rparr>;
                   st6 =
                     (case val_dataset of
                        None \<Rightarrow> st3
                      | Some vd \<Rightarrow>
                          (let st4 = val_batches E 0 (iter_batch E vd False None batch_size_arg 0)
                                       (st3\<lparr>test_losses_var := []\<rparr>);
                               test_loss = reduce_mean (test_losses_var st4)
                           in st4\<lparr>test_loss_history :=
                                     Some ((case test_loss_history st4 of None \<Rightarrow> [] | Some h \<Rightarrow> h)
                                           @ [test_loss]),
                                   train_logs := train_logs st4 @ val_logs st4\<rparr>))
               in Inr (fire E (On_epoch_end epoch_nb) (Some (temps_logs (train_logs st6))) st6))))"

text \<open>
  The epoch loop (lines 226--365): \<open>remaining\<close> epochs are left and \<open>epoch_nb\<close> is the
  next one. The flag \<^verbatim>\<open>self.stop_training\<close> is read at line 360.
\<close>

fun epoch_loop ::
  "('w, 'o, 'c, 'x, 'd) substrate \<Rightarrow> 'd \<Rightarrow> fl list option \<Rightarrow> 'd option \<Rightarrow> int \<Rightarrow> nat \<Rightarrow> nat
     \<Rightarrow> ('w, 'o, 'c) fit_state \<Rightarrow> py_error + ('w, 'o, 'c) fit_state" where
  "epoch_loop E choice_dataset sample_weight val_dataset batch_size_arg 0 epoch_nb st = Inr st"
| "epoch_loop E choice_dataset sample_weight val_dataset batch_size_arg (Suc remaining) epoch_nb st =
    (case run_epoch E choice_dataset sample_weight val_dataset batch_size_arg epoch_nb st of
       Inl e \<Rightarrow> Inl e
     | Inr st1 \<Rightarrow>
         (let flag = stop_training (hyper (self_obj st1));
              st2 = st1\<lparr>trace := trace st1 @ [Read_stop_training flag]\<rparr>
          in if flag then Inr st2
             else epoch_loop E choice_dataset sample_weight val_dataset batch_size_arg
                    remaining (Suc epoch_nb) st2))"

text \<open>What \<^verbatim>\<open>fit\<close> returns, with the object and the events of the call.\<close>

record ('w, 'o, 'c) fit_result =
  losses_history_train :: "fl list"
  losses_history_test :: "fl list option"
  fitted :: "('w, 'o, 'c) choice_model"
  events :: "event list"

text \<open>
  \<^verbatim>\<open>ChoiceModel.fit\<close>. With no epoch at all the variable \<^verbatim>\<open>train_logs\<close> of line 367 is
  unbound.
\<close>

definition fit ::
  "('w, 'o, 'c, 'x, 'd) substrate \<Rightarrow> ('w, 'o, 'c) choice_model \<Rightarrow> 'd \<Rightarrow> fl list option
     \<Rightarrow> 'd option \<Rightarrow> nat option \<Rightarrow> int option \<Rightarrow> py_error + ('w, 'o, 'c) fit_result" where
  "fit E self choice_dataset sample_weight val_dataset epochs_arg batch_size_arg =
    (if instantiated self = Some False then Inl ValueError
     else
       (let epochs_v = (case epochs_arg of None \<Rightarrow> epochs (hyper self) | Some e \<Rightarrow> e);
            batch_size_v = (case batch_size_arg of None \<Rightarrow> batch_size (hyper self) | Some b \<Rightarrow> b);
            st0 = fire E On_train_begin None
                    \<lparr> self_obj = self, trace = [], train_loss_history = [],
                      test_loss_history = None, last_available_items_batch = None,
                      train_logs = [], val_logs = [], epoch_losses_var = [],
                      test_losses_var = [] \<rparr>
        in case epoch_loop E choice_dataset sample_weight val_dataset batch_size_v epochs_v 0 st0 of
             Inl e \<Rightarrow> Inl e
           | Inr st \<Rightarrow>
               if epochs_v = 0 then Inl NameError
               else
                 (let st' = fire E On_train_end (Some (temps_logs (train_logs st))) st
                  in Inr \<lparr> losses_history_train = train_loss_history st',
                           losses_history_test = test_loss_history st',
                           fitted = self_obj st', events = trace st' \<rparr>)))"

subsection \<open>predict_probas and evaluate\<close>

text \<open>The loop of \<^verbatim>\<open>predict_probas\<close> (lines 504--517).\<close>

fun predict_batches ::
  "('w, 'o, 'c, 'x, 'd) substrate \<Rightarrow> ('x batch \<times> fl list option) list \<Rightarrow> ('w, 'o, 'c) choice_model
     \<Rightarrow> fl list list list \<Rightarrow> fl list list list \<times> ('w, 'o, 'c) choice_model" where
  "predict_batches E [] self stacked_probabilities = (stacked_probabilities, self)"
| "predict_batches E ((b, _) # rest) self stacked_probabilities =
    (let ((_, probabilities), self1) = batch_predict E self b None
     in predict_batches E rest self1 (stacked_probabilities @ [probabilities]))"

text \<open>
  \<^verbatim>\<open>ChoiceModel.predict_probas\<close>. \<^verbatim>\<open>iter_batch\<close> is called with its default
  \<^verbatim>\<open>shuffle\<close>, off, and without sample weights; \<^verbatim>\<open>tf.concat\<close> refuses an empty list.
\<close>

definition predict_probas ::
  "('w, 'o, 'c, 'x, 'd) substrate \<Rightarrow> ('w, 'o, 'c) choice_model \<Rightarrow> 'd \<Rightarrow> int
     \<Rightarrow> (py_error + fl list list) \<times> ('w, 'o, 'c) choice_model" where
  "predict_probas E self choice_dataset batch_size_arg =
    (let (stacked_probabilities, self1) =
           predict_batches E (iter_batch E choice_dataset False None batch_size_arg 0) self []
     in (if stacked_probabilities = [] then Inl ValueError else Inr (concat stacked_probabilities),
         self1))"

text \<open>The loop of \<^verbatim>\<open>evaluate\<close> (lines 537--554): the whole \<open>sample_weight\<close> goes to every
  batch; a \<open>mode\<close> other than the two known ones appends nothing.\<close>

fun evaluate_batches ::
  "('w, 'o, 'c, 'x, 'd) substrate \<Rightarrow> fl list option \<Rightarrow> string \<Rightarrow> ('x batch \<times> fl list option) list
     \<Rightarrow> ('w, 'o, 'c) choice_model \<Rightarrow> fl list \<Rightarrow> bool list list option
     \<Rightarrow> (fl list \<times> bool list list option) \<times> ('w, 'o, 'c) choice_model" where
  "evaluate_batches E sample_weight mode [] self batch_losses last_batch =
     ((batch_losses, last_batch), self)"
| "evaluate_batches E sample_weight mode ((b, _) # rest) self batch_losses last_batch =
    (let ((bl, _), self1) = batch_predict E self b sample_weight;
         batch_losses1 =
           (if mode = ''eval'' then batch_losses @ [NegativeLogLikelihood bl]
            else if mode = ''optim'' then batch_losses @ [optimized_loss bl]
            else batch_losses)
     in evaluate_batches E sample_weight mode rest self1 batch_losses1
          (Some (available_items_batch b)))"

text \<open>\<^verbatim>\<open>ChoiceModel.evaluate\<close> (lines 537--564).\<close>

definition evaluate ::
  "('w, 'o, 'c, 'x, 'd) substrate \<Rightarrow> ('w, 'o, 'c) choice_model \<Rightarrow> 'd \<Rightarrow> fl list option \<Rightarrow> int
     \<Rightarrow> string \<Rightarrow> (py_error + fl) \<times> ('w, 'o, 'c) choice_model" where
  "evaluate E self choice_dataset sample_weight batch_size_arg mode =
    (let ((batch_losses, last_batch), self1) =
           evaluate_batches E sample_weight mode
             (iter_batch E choice_dataset False None batch_size_arg 0) self [] None
     in (epoch_loss batch_size_arg batch_losses last_batch (len E choice_dataset), self1))"

subsection \<open>What the specification says of fit\<close>

text \<open>
  The events of a complete epoch \<open>k\<close>, in the words of the specification: the epoch
  begins, every training batch of the pass is begun and ended, every validation batch
  (when there is a validation dataset) is begun and ended, and the epoch ends.
\<close>

definition train_batch_hooks :: "nat \<Rightarrow> nat \<Rightarrow> event list" where
  "train_batch_hooks n c =
     concat (map (\<lambda>i. [Hook (On_train_batch_begin i), Hook (On_train_batch_end i)]) [n..<n + c])"

definition val_batch_hooks :: "nat \<Rightarrow> nat \<Rightarrow> event list" where
  "val_batch_hooks n c =
     concat (map (\<lambda>i. [Hook (On_batch_begin i), Hook (On_test_batch_begin i),
                        Hook (On_test_batch_end i)]) [n..<n + c])"

definition complete_epoch ::
  "('w, 'o, 'c, 'x, 'd) substrate \<Rightarrow> 'd \<Rightarrow> fl list option \<Rightarrow> 'd option \<Rightarrow> int \<Rightarrow> nat
     \<Rightarrow> event list" where
  "complete_epoch E choice_dataset sample_weight val_dataset batch_size_arg k =
     [Hook (On_epoch_begin k)]
     @ train_batch_hooks 0 (length (iter_batch E choice_dataset True sample_weight batch_size_arg k))
     @ (case val_dataset of
          None \<Rightarrow> []
        | Some vd \<Rightarrow> val_batch_hooks 0 (length (iter_batch E vd False None batch_size_arg 0)))
     @ [Hook (On_epoch_end k)]"

text \<open>
  The state in which \<^verbatim>\<open>fit\<close> enters its epoch loop: \<^verbatim>\<open>on_train_begin\<close> has been
  called on the object and the history is empty (lines 216--225).
\<close>

definition train_begin ::
  "('w, 'o, 'c, 'x, 'd) substrate \<Rightarrow> ('w, 'o, 'c) choice_model \<Rightarrow> ('w, 'o, 'c) fit_state" where
  "train_begin E self =
     fire E On_train_begin None
       \<lparr> self_obj = self, trace = [], train_loss_history = [],
         test_loss_history = None, last_available_items_batch = None,
         train_logs = [], val_logs = [], epoch_losses_var = [],
         test_losses_var = [] \<rparr>"

text \<open>
  The reference against which the reads of the stop flag are judged: the state after \<open>m\<close>
  complete epochs from epoch \<open>k\<close> on, when the body of the epoch loop is run \<open>m\<close> times
  with no early exit. After each epoch, that is after its \<^verbatim>\<open>on_epoch_end\<close>, the value
  that \<^verbatim>\<open>self.stop_training\<close> has on the object at that moment is recorded as read.
\<close>

fun epochs_done ::
  "('w, 'o, 'c, 'x, 'd) substrate \<Rightarrow> 'd \<Rightarrow> fl list option \<Rightarrow> 'd option \<Rightarrow> int \<Rightarrow> nat \<Rightarrow> nat
     \<Rightarrow> ('w, 'o, 'c) fit_state \<Rightarrow> py_error + ('w, 'o, 'c) fit_state" where
  "epochs_done E choice_dataset sample_weight val_dataset batch_size_arg 0 k st = Inr st"
| "epochs_done E choice_dataset sample_weight val_dataset batch_size_arg (Suc m) k st =
    (case run_epoch E choice_dataset sample_weight val_dataset batch_size_arg k st of
       Inl e \<Rightarrow> Inl e
     | Inr st1 \<Rightarrow>
         epochs_done E choice_dataset sample_weight val_dataset batch_size_arg m (Suc k)
           (st1\<lparr>trace := trace st1
                   @ [Read_stop_training (stop_training (hyper (self_obj st1)))]\<rparr>))"

text \<open>
  The epoch loss in the words of the specification: every batch but the last weighs the
  requested batch size, the last one its true size, and the sum is divided by the length
  of the dataset.
\<close>

definition size_weighted_mean :: "real \<Rightarrow> real list \<Rightarrow> real \<Rightarrow> real \<Rightarrow> real" where
  "size_weighted_mean requested losses last_size n =
     (sum_list (map (\<lambda>l. requested * l) (butlast losses)) + last_size * last losses) / n"

subsection \<open>A small instance\<close>

text \<open>
  A concrete substrate on which the theorems below are exercised: a dataset is its
  number of choices, over two items that are always available; a pass yields the whole
  dataset for batch size \<open>-1\<close> and otherwise one batch of the requested size and one of
  the rest; the model has one scalar parameter, the utility of the first item; equal
  utilities get equal probabilities; the loss of a batch is its number of rows, so that
  batches of different sizes have different losses; the gradient is zero. The callback
  counts the epochs and requests a stop at the first training batch of epoch 1, in the
  middle of that epoch.
\<close>

definition example_batch :: "nat \<Rightarrow> unit batch" where
  "example_batch n =
     \<lparr> shared_features_batch = (), items_features_batch = (),
       available_items_batch = replicate n [True, True], choices_batch = replicate n 0 \<rparr>"

definition example_callbacks ::
  "hook \<Rightarrow> logs option \<Rightarrow> (real, nat, nat) choice_model \<Rightarrow> (real, nat, nat) choice_model" where
  "example_callbacks h lg m =
     (case h of
        On_epoch_begin k \<Rightarrow> m\<lparr>callbacks_state := k\<rparr>
      | On_train_batch_begin i \<Rightarrow>
          (if callbacks_state m = 1 \<and> i = 0
           then m\<lparr>hyper := (hyper m)\<lparr>stop_training := True\<rparr>\<rparr> else m)
      | _ \<Rightarrow> m)"

definition example_substrate :: "(real, nat, nat, unit, nat) substrate" where
  "example_substrate =
     \<lparr> iter_batch = (\<lambda>d shuffle sw bs k.
         if bs = - 1 then [(example_batch d, sw)]
         else [(example_batch (nat bs), None), (example_batch (d - nat bs), None)]),
       len = (\<lambda>d. d),
       compute_batch_utility = (\<lambda>m b. (map (\<lambda>row. [Fin (weights m), Fin 0]) (available_items_batch b), m)),
       softmax_with_availabilities = (\<lambda>u a nb. map (\<lambda>row. [Fin (1 / 2), Fin (1 / 2)]) u),
       loss = (\<lambda>p y sw. Fin (real (length p))),
       categorical_crossentropy = (\<lambda>p y sw. Fin (real (length p))),
       gradient = (\<lambda>m b sw. 0),
       gradient_dataset = (\<lambda>m d sw. 0),
       apply_gradients = (\<lambda>opt g w. (Suc opt, w - g)),
       callbacks = example_callbacks \<rparr>"

definition example_model :: "(real, nat, nat) choice_model" where
  "example_model =
     \<lparr> hyper = fst (ChoiceModel_init 0 False ''Adam'' (1 / 10 ^ 8) (1 / 10 ^ 3) 3 2),
       weights = 0, optimizer_state = 0, callbacks_state = 0, instantiated = Some True \<rparr>"

definition example_fit_state :: "(real, nat, nat) fit_state" where
  "example_fit_state =
     \<lparr> self_obj = example_model, trace = [], train_loss_history = [],
       test_loss_history = None, last_available_items_batch = None,
       train_logs = [], val_logs = [], epoch_losses_var = [], test_losses_var = [] \<rparr>"

section \<open>The L-BFGS adapter of ChoiceModel\<close>

text \<open>A tensor: its shape and its values in row-major order. \<open>wf_tensor\<close> is what every
  tensor of the library satisfies: as many values as the shape says.\<close>

record 'a tensor =
  shape :: "nat list"
  vals :: "'a list"

definition wf_tensor :: "'a tensor \<Rightarrow> bool" where
  "wf_tensor t = (length (vals t) = prod_list (shape t))"

text \<open>\<^verbatim>\<open>tf.reshape\<close> of a vector: the sizes must agree.\<close>

definition reshape :: "'a list \<Rightarrow> nat list \<Rightarrow> py_error + 'a tensor" where
  "reshape xs sh =
     (if length xs = prod_list sh then Inr \<lparr> shape = sh, vals = xs \<rparr>
      else Inl InvalidArgumentError)"

text \<open>
  The loop of lines 588--596: from \<open>count\<close> and the index \<open>i\<close> of the next tensor, the
  stitch indices \<^verbatim>\<open>idx\<close> (for each shape the range of its positions in the flat
  vector, reshaped) and the partition indices \<^verbatim>\<open>part\<close> (\<open>i\<close> repeated once per value).
\<close>

fun stitch_partition_indices :: "nat \<Rightarrow> nat \<Rightarrow> nat list list \<Rightarrow> nat tensor list \<times> nat list" where
  "stitch_partition_indices count i [] = ([], [])"
| "stitch_partition_indices count i (sh # shapes) =
     (let n = prod_list sh;
          (idx, part) = stitch_partition_indices (count + n) (Suc i) shapes
      in (\<lparr> shape = sh, vals = [count..<count + n] \<rparr> # idx, replicate n i @ part))"

text \<open>
  \<^verbatim>\<open>tf.dynamic_partition(data, partitions, num_partitions)\<close> on vectors: output \<open>i\<close>
  holds, in order, the values whose partition index is \<open>i\<close>.
\<close>

definition dynamic_partition :: "'a list \<Rightarrow> nat list \<Rightarrow> nat \<Rightarrow> py_error + 'a list list" where
  "dynamic_partition data partitions num_partitions =
     (if length partitions \<noteq> length data then Inl InvalidArgumentError
      else if \<not> list_all (\<lambda>p. p < num_partitions) partitions then Inl InvalidArgumentError
      else Inr (map (\<lambda>i. map fst (filter (\<lambda>(x, p). p = i) (zip data partitions)))
                    [0..<num_partitions]))"

text \<open>
  \<^verbatim>\<open>tf.dynamic_stitch(indices, data)\<close>: \<^verbatim>\<open>merged[indices[m][i]] = data[m][i]\<close>, later
  writes winning, in a vector one longer than the largest index.
\<close>

definition dynamic_stitch :: "nat tensor list \<Rightarrow> ('a::zero) tensor list \<Rightarrow> py_error + 'a list" where
  "dynamic_stitch indices data =
     (if \<not> list_all2 (\<lambda>i d. shape i = shape d) indices data then Inl InvalidArgumentError
      else
        (let pairs = concat (map2 (\<lambda>i d. zip (vals i) (vals d)) indices data);
             size = (if pairs = [] then 0 else Suc (fold max (map fst pairs) 0))
         in Inr (fold (\<lambda>(j, v) merged. merged[j := v]) pairs (replicate size 0))))"

text \<open>
  The loop of \<^verbatim>\<open>assign_new_model_parameters\<close> (lines 610--611), from index \<open>i\<close>:
  \<^verbatim>\<open>self.weights[i].assign(tf.reshape(param, shape))\<close>; a variable refuses a value of
  another shape.
\<close>

fun assign_tensors ::
  "nat \<Rightarrow> (nat list \<times> 'a list) list \<Rightarrow> 'a tensor list \<Rightarrow> py_error + 'a tensor list" where
  "assign_tensors i [] ws = Inr ws"
| "assign_tensors i ((sh, param) # rest) ws =
     (if \<not> i < length ws then Inl IndexError
      else
        (case reshape param sh of
           Inl e \<Rightarrow> Inl e
         | Inr t \<Rightarrow>
             if shape (ws ! i) \<noteq> shape t then Inl ValueError
             else assign_tensors (Suc i) rest (ws[i := t])))"

text \<open>The attributes of the closure \<^verbatim>\<open>f\<close> that \<^verbatim>\<open>_lbfgs_train_step\<close> returns (lines
  654--659); \<^verbatim>\<open>shapes\<close>, \<^verbatim>\<open>part\<close> and \<^verbatim>\<open>idx\<close> are also what the two inner functions
  captured.\<close>

record lbfgs_func =
  f_idx :: "nat tensor list"
  f_part :: "nat list"
  f_shapes :: "nat list list"
  f_iter :: nat
  f_history :: "fl list"

text \<open>\<^verbatim>\<open>assign_new_model_parameters\<close> (lines 601--611); \<^verbatim>\<open>n_tensors\<close> is the number
  of shapes.\<close>

definition assign_new_model_parameters ::
  "lbfgs_func \<Rightarrow> 'a list \<Rightarrow> ('a tensor list, 'o, 'c) choice_model
     \<Rightarrow> py_error + ('a tensor list, 'o, 'c) choice_model" where
  "assign_new_model_parameters func params_1d self =
     (case dynamic_partition params_1d (f_part func) (length (f_shapes func)) of
        Inl e \<Rightarrow> Inl e
      | Inr params \<Rightarrow>
          (case assign_tensors 0 (zip (f_shapes func) params) (weights self) of
             Inl e \<Rightarrow> Inl e
           | Inr ws \<Rightarrow> Inr (self\<lparr>weights := ws\<rparr>)))"

text \<open>The factory \<^verbatim>\<open>ChoiceModel._lbfgs_train_step\<close> (lines 583--598, 654--660).\<close>

definition lbfgs_train_step :: "('a tensor list, 'o, 'c) choice_model \<Rightarrow> lbfgs_func" where
  "lbfgs_train_step self =
     (let shapes = map shape (weights self);
          (idx, part) = stitch_partition_indices 0 0 shapes
      in \<lparr> f_idx = idx, f_part = part, f_shapes = shapes, f_iter = 0, f_history = [] \<rparr>)"

text \<open>The returned function \<^verbatim>\<open>f\<close> (lines 633--651), on the object and the closure's
  attributes.\<close>

definition lbfgs_f ::
  "(fl tensor list, 'o, 'c, 'x, 'd) substrate \<Rightarrow> 'd \<Rightarrow> fl list option \<Rightarrow> fl list
     \<Rightarrow> (fl tensor list, 'o, 'c) choice_model \<times> lbfgs_func
     \<Rightarrow> py_error + ((fl \<times> fl list) \<times> (fl tensor list, 'o, 'c) choice_model \<times> lbfgs_func)" where
  "lbfgs_f E dataset sample_weight params_1d s =
     (case s of (self, func) \<Rightarrow>
        (case assign_new_model_parameters func params_1d self of
           Inl e \<Rightarrow> Inl e
         | Inr self1 \<Rightarrow>
             (case evaluate E self1 dataset sample_weight (- 1) ''optim'' of
                (Inl e, _) \<Rightarrow> Inl e
              | (Inr loss_value, self2) \<Rightarrow>
                  (case dynamic_stitch (f_idx func) (gradient_dataset E self2 dataset sample_weight) of
                     Inl e \<Rightarrow> Inl e
                   | Inr grads \<Rightarrow>
                       Inr ((loss_value, grads), self2,
                            func\<lparr>f_iter := f_iter func + 1,
                                 f_history := f_history func @ [loss_value]\<rparr>)))))"

text \<open>
  \<^verbatim>\<open>tfp.optimizer.lbfgs_minimize\<close> is not part of the repository. It is taken as any
  strategy with a state \<open>'q\<close> that, from the initial position, asks for the value and the
  gradient at one point after the other, at most \<open>budget max_iterations\<close> times, and
  reports a position; it reaches the object only through the function it is given.
\<close>

record 'q minimizer =
  initial :: "fl list \<Rightarrow> nat \<Rightarrow> real \<Rightarrow> 'q"
  budget :: "nat \<Rightarrow> nat"
  next_query :: "'q \<Rightarrow> fl list option"
  observe :: "'q \<Rightarrow> fl list \<Rightarrow> fl \<times> fl list \<Rightarrow> 'q"
  position :: "'q \<Rightarrow> fl list"
  converged :: "'q \<Rightarrow> bool"
  num_iterations :: "'q \<Rightarrow> nat"

fun run_minimizer ::
  "'q minimizer \<Rightarrow> (fl list \<Rightarrow> 's \<Rightarrow> py_error + ((fl \<times> fl list) \<times> 's)) \<Rightarrow> nat \<Rightarrow> 'q \<Rightarrow> 's
     \<Rightarrow> py_error + ('q \<times> 's)" where
  "run_minimizer M f 0 q s = Inr (q, s)"
| "run_minimizer M f (Suc n) q s =
     (case next_query M q of
        None \<Rightarrow> Inr (q, s)
      | Some x \<Rightarrow>
          (case f x s of
             Inl e \<Rightarrow> Inl e
           | Inr (y, s') \<Rightarrow> run_minimizer M f n (observe M q x y) s'))"

definition lbfgs_minimize ::
  "'q minimizer \<Rightarrow> (fl list \<Rightarrow> 's \<Rightarrow> py_error + ((fl \<times> fl list) \<times> 's)) \<Rightarrow> fl list \<Rightarrow> nat \<Rightarrow> real
     \<Rightarrow> 's \<Rightarrow> py_error + ('q \<times> 's)" where
  "lbfgs_minimize M value_and_gradients_function initial_position max_iterations tol s =
     run_minimizer M value_and_gradients_function (budget M max_iterations)
       (initial M initial_position max_iterations tol) s"

text \<open>What \<^verbatim>\<open>_fit_with_lbfgs\<close> returns (\<^verbatim>\<open>func.history\<close>), with the position the
  minimizer reported (\<^verbatim>\<open>results.position\<close>) and the object.\<close>

record ('o, 'c) lbfgs_fit_result =
  fit_history :: "fl list"
  results_position :: "fl list"
  fitted_model :: "(fl tensor list, 'o, 'c) choice_model"

text \<open>\<^verbatim>\<open>ChoiceModel._fit_with_lbfgs\<close> (lines 687--712), without the prints.\<close>

definition fit_with_lbfgs ::
  "(fl tensor list, 'o, 'c, 'x, 'd) substrate \<Rightarrow> 'q minimizer
     \<Rightarrow> (fl tensor list, 'o, 'c) choice_model \<Rightarrow> 'd \<Rightarrow> nat option \<Rightarrow> fl list option
     \<Rightarrow> py_error + ('o, 'c) lbfgs_fit_result" where
  "fit_with_lbfgs E M self dataset epochs_arg sample_weight =
     (let epochs_v = (case epochs_arg of None \<Rightarrow> epochs (hyper self) | Some e \<Rightarrow> e);
          func = lbfgs_train_step self
      in case dynamic_stitch (f_idx func) (weights self) of
           Inl e \<Rightarrow> Inl e
         | Inr init_params \<Rightarrow>
             (case lbfgs_minimize M (lbfgs_f E dataset sample_weight) init_params epochs_v
                     (tolerance (hyper self)) (self, func) of
                Inl e \<Rightarrow> Inl e
              | Inr (results, self1, func1) \<Rightarrow>
                  (case assign_new_model_parameters func1 (position M results) self1 of
                     Inl e \<Rightarrow> Inl e
                   | Inr self2 \<Rightarrow>
                       Inr \<lparr> fit_history = f_history func1,
                             results_position = position M results,
                             fitted_model = self2 \<rparr>)))"

text \<open>The closure matches the object: its shapes are those of the live tensors, and its
  indices are those built from these shapes.\<close>

definition matches :: "lbfgs_func \<Rightarrow> ('a tensor list, 'o, 'c) choice_model \<Rightarrow> bool" where
  "matches func self =
     (f_shapes func = map shape (weights self)
      \<and> f_idx func = fst (stitch_partition_indices 0 0 (f_shapes func))
      \<and> f_part func = snd (stitch_partition_indices 0 0 (f_shapes func)))"


text \<open>An instance with two parameter tensors, a gradient of ones, and a minimizer that
  steps against the gradient it is given: its reported position is one step beyond the
  last point it asked about.\<close>

definition example_tensor_model :: "(fl tensor list, nat, nat) choice_model" where
  "example_tensor_model =
     \<lparr> hyper = fst (ChoiceModel_init 0 False ''lbfgs'' (1 / 10 ^ 8) (1 / 10 ^ 3) 2 32),
       weights = [\<lparr> shape = [2], vals = [Fin 1, Fin 2] \<rparr>,
                  \<lparr> shape = [1, 2], vals = [Fin 3, Fin 4] \<rparr>],
       optimizer_state = 0, callbacks_state = 0, instantiated = Some True \<rparr>"

definition example_tensor_substrate :: "(fl tensor list, nat, nat, unit, nat) substrate" where
  "example_tensor_substrate =
     \<lparr> iter_batch = (\<lambda>d shuffle sw bs k.
         if bs = - 1 then [(example_batch d, sw)]
         else [(example_batch (nat bs), None), (example_batch (d - nat bs), None)]),
       len = (\<lambda>d. d),
       compute_batch_utility =
         (\<lambda>m b. (map (\<lambda>row. case weights m of [] \<Rightarrow> [] | t # _ \<Rightarrow> vals t)
                      (available_items_batch b), m)),
       softmax_with_availabilities = (\<lambda>u a nb. map (\<lambda>row. [Fin (1 / 2), Fin (1 / 2)]) u),
       loss = (\<lambda>p y sw. Fin (real (length p))),
       categorical_crossentropy = (\<lambda>p y sw. Fin (real (length p))),
       gradient = (\<lambda>m b sw. map (\<lambda>t. t\<lparr>vals := map (\<lambda>v. Fin 1) (vals t)\<rparr>) (weights m)),
       gradient_dataset = (\<lambda>m d sw. map (\<lambda>t. t\<lparr>vals := map (\<lambda>v. Fin 1) (vals t)\<rparr>) (weights m)),
       apply_gradients = (\<lambda>opt g w. (Suc opt, w)),
       callbacks = (\<lambda>h lg m. m) \<rparr>"

definition example_minimizer :: "(fl list \<times> nat) minimizer" where
  "example_minimizer =
     \<lparr> initial = (\<lambda>x n tol. (x, 0)),
       budget = (\<lambda>n. n),
       next_query = (\<lambda>q. Some (fst q)),
       observe = (\<lambda>q x y. (map2 (\<lambda>xi gi. fl_add xi (fl_neg gi)) (fst q) (snd y), Suc (snd q))),
       position = fst,
       converged = (\<lambda>q. False),
       num_iterations = snd \<rparr>"


section \<open>BaseLatentClassModel\<close>

subsection \<open>The object and the substrate\<close>

text \<open>A two-dimensional NumPy array: the number of columns, kept apart because an array
  may have no row, and the rows.\<close>

record matrix =
  ncols :: nat
  rows :: "fl list list"

text \<open>
  The attributes of a \<^verbatim>\<open>BaseLatentClassModel\<close>. Those of \<^verbatim>\<open>__init__\<close> (lines 753--774)
  are always there; \<open>latent_logits\<close> and \<open>models\<close> exist once \<^verbatim>\<open>instantiate\<close> has run,
  \<open>lc_weights\<close> (\<^verbatim>\<open>self.weights\<close>, the responsibilities) once an E-step has, \<open>minf\<close> once
  \<^verbatim>\<open>fit\<close> has taken the EM branch: \<open>None\<close> stands for an attribute that does not exist.
  No line of the class assigns \<^verbatim>\<open>self.normalize_non_buy\<close>, which \<^verbatim>\<open>batch_predict\<close>
  reads: \<open>lc_normalize_non_buy\<close> is \<open>None\<close> unless a subclass or a caller sets it.
  \<open>printed\<close> collects the lines printed.
\<close>

record ('m, 'p) latent_model =
  n_latent_classes :: nat
  model_parameters :: "'p list"
  fit_method :: string
  lc_epochs :: nat
  add_exit_choice :: bool
  lc_tolerance :: real
  lc_optimizer :: "string option"
  lc_lr :: real
  lc_instantiated :: bool
  lc_normalize_non_buy :: "bool option"
  latent_logits :: "fl list option"
  models :: "'m list option"
  lc_weights :: "matrix option"
  minf :: "fl option"
  printed :: "string list"

text \<open>
  What the class calls and the file does not contain. The class of the sub-models is an
  argument of the constructor: \<open>model_class\<close> builds a sub-model from its
  hyper-parameters, and \<open>m_instantiate\<close>, \<open>m_compute_batch_utility\<close>,
  \<open>m_predict_probas\<close> and \<open>m_fit\<close> are its methods (\<open>m_fit\<close> returns the fitted
  sub-model). \<open>lc_softmax_with_availabilities\<close> is
  \<^verbatim>\<open>tf_ops.softmax_with_availabilities\<close> on what \<^verbatim>\<open>batch_predict\<close> passes it, the list
  of the utilities of all classes; the two loss objects take the tensor that results.
  \<open>random_normal i\<close> is component \<open>i\<close> of the seeded initializer, \<open>random_rand k n\<close> the
  \<open>k\<close>-th draw of \<^verbatim>\<open>np.random.rand(n)\<close>. \<open>lc_fit_with_lbfgs\<close> stands for the L-BFGS path
  of lines 987--1154.
\<close>

record ('m, 'p, 'x, 'd) latent_substrate =
  model_class :: "'p \<Rightarrow> 'm"
  m_instantiate :: "'m \<Rightarrow> 'm"
  m_compute_batch_utility :: "'m \<Rightarrow> 'x batch \<Rightarrow> fl list list"
  m_predict_probas :: "'m \<Rightarrow> 'd \<Rightarrow> py_error + fl list list"
  m_fit :: "'m \<Rightarrow> 'd \<Rightarrow> fl list \<Rightarrow> py_error + 'm"
  lc_softmax_with_availabilities ::
    "fl list list list \<Rightarrow> bool list list \<Rightarrow> bool \<Rightarrow> fl list list list"
  lc_loss :: "fl list list list \<Rightarrow> fl list list \<Rightarrow> fl list option \<Rightarrow> fl"
  lc_categorical_crossentropy :: "fl list list list \<Rightarrow> fl list list \<Rightarrow> fl list option \<Rightarrow> fl"
  random_normal :: "nat \<Rightarrow> fl"
  random_rand :: "nat \<Rightarrow> nat \<Rightarrow> fl list"
  dataset_choices :: "'d \<Rightarrow> nat list"
  lc_len :: "'d \<Rightarrow> nat"
  lc_fit_with_lbfgs :: "('m, 'p) latent_model \<Rightarrow> 'd \<Rightarrow> fl list option
                          \<Rightarrow> (py_error + fl list) \<times> ('m, 'p) latent_model"

subsection \<open>The constructor and instantiate\<close>

text \<open>\<^verbatim>\<open>BaseLatentClassModel.__init__\<close>: \<open>model_parameters_arg\<close> is a list (\<open>Inl\<close>) or one
  set of hyper-parameters for every class (\<open>Inr\<close>).\<close>

definition BaseLatentClassModel_init ::
  "nat \<Rightarrow> 'p list + 'p \<Rightarrow> string \<Rightarrow> nat \<Rightarrow> string option \<Rightarrow> bool \<Rightarrow> real \<Rightarrow> real
     \<Rightarrow> py_error + ('m, 'p) latent_model" where
  "BaseLatentClassModel_init n_latent_classes_arg model_parameters_arg fit_method_arg epochs_arg
       optimizer_arg add_exit_choice_arg tolerance_arg lr_arg =
     (let self = \<lparr> n_latent_classes = n_latent_classes_arg, model_parameters = [],
                    fit_method = fit_method_arg, lc_epochs = epochs_arg,
                    add_exit_choice = add_exit_choice_arg, lc_tolerance = tolerance_arg,
                    lc_optimizer = optimizer_arg, lc_lr = lr_arg, lc_instantiated = False,
                    lc_normalize_non_buy = None, latent_logits = None, models = None,
                    lc_weights = None, minf = None, printed = [] \<rparr>
      in case model_parameters_arg of
           Inl mps \<Rightarrow>
             if \<not> length mps = n_latent_classes_arg then Inl ValueError
             else Inr (self\<lparr>model_parameters := mps\<rparr>)
         | Inr mp \<Rightarrow> Inr (self\<lparr>model_parameters := replicate n_latent_classes_arg mp\<rparr>))"

text \<open>
  \<^verbatim>\<open>__init__\<close> is a method: Python also runs it on an object that exists already
  (\<^verbatim>\<open>model.__init__(...)\<close>). Lines 753--774 assign the attributes of the constructor
  and nothing else, so that \<^verbatim>\<open>latent_logits\<close>, \<^verbatim>\<open>models\<close>, \<^verbatim>\<open>weights\<close> and
  \<^verbatim>\<open>minf\<close> stay as they were.
\<close>

definition BaseLatentClassModel_init_on ::
  "('m, 'p) latent_model \<Rightarrow> nat \<Rightarrow> 'p list + 'p \<Rightarrow> string \<Rightarrow> nat \<Rightarrow> string option \<Rightarrow> bool
     \<Rightarrow> real \<Rightarrow> real \<Rightarrow> py_error + ('m, 'p) latent_model" where
  "BaseLatentClassModel_init_on self n_latent_classes_arg model_parameters_arg fit_method_arg
       epochs_arg optimizer_arg add_exit_choice_arg tolerance_arg lr_arg =
     (let self1 = self\<lparr> n_latent_classes := n_latent_classes_arg,
                         fit_method := fit_method_arg, lc_epochs := epochs_arg,
                         add_exit_choice := add_exit_choice_arg, lc_tolerance := tolerance_arg,
                         lc_optimizer := optimizer_arg, lc_lr := lr_arg,
                         lc_instantiated := False \<rparr>
      in case model_parameters_arg of
           Inl mps \<Rightarrow>
             if \<not> length mps = n_latent_classes_arg then Inl ValueError
             else Inr (self1\<lparr>model_parameters := mps\<rparr>)
         | Inr mp \<Rightarrow> Inr (self1\<lparr>model_parameters := replicate n_latent_classes_arg mp\<rparr>))"

text \<open>\<^verbatim>\<open>instantiate\<close> (lines 778--785): \<open>n_latent_classes - 1\<close> logits; no tensor has the
  shape \<open>(-1,)\<close>.\<close>

definition lc_instantiate ::
  "('m, 'p, 'x, 'd) latent_substrate \<Rightarrow> ('m, 'p) latent_model \<Rightarrow> py_error + ('m, 'p) latent_model" where
  "lc_instantiate L self =
     (if n_latent_classes self = 0 then Inl ValueError
      else Inr (self\<lparr>latent_logits := Some (map (random_normal L) [0..<n_latent_classes self - 1]),
                     models := Some (map (\<lambda>mp. m_instantiate L (model_class L mp))
                                         (model_parameters self))\<rparr>))"

subsection \<open>batch_predict\<close>

text \<open>\<^verbatim>\<open>compute_batch_utility\<close> (lines 898--908): the utilities of every sub-model.\<close>

definition lc_compute_batch_utility ::
  "('m, 'p, 'x, 'd) latent_substrate \<Rightarrow> ('m, 'p) latent_model \<Rightarrow> 'x batch
     \<Rightarrow> py_error + fl list list list" where
  "lc_compute_batch_utility L self b =
     (case models self of
        None \<Rightarrow> Inl AttributeError
      | Some ms \<Rightarrow> Inr (map (\<lambda>model. m_compute_batch_utility L model b) ms))"

text \<open>
  Lines 831--834: the prior over the classes from the logits,
  \<^verbatim>\<open>concat([[1.0], exp(latent_logits)])\<close> divided by its sum. Nothing is subtracted from
  the logits before they are exponentiated. The sum and the quotients are
  \<^verbatim>\<open>float32\<close>.
\<close>

definition latent_probabilities :: "fl list \<Rightarrow> fl list" where
  "latent_probabilities logits =
     (let lp = Fin 1 # map fl_exp logits;
          total = fl_range (reduce_sum lp)
      in map (\<lambda>x. fl_range (fl_div x total)) lp)"

text \<open>A tensor of rank 3 times a scalar, and the sum of two such tensors.\<close>

definition scale3 :: "fl list list list \<Rightarrow> fl \<Rightarrow> fl list list list" where
  "scale3 t c = map (map (map (\<lambda>x. fl_mul x c))) t"

definition add3 :: "fl list list list \<Rightarrow> fl list list list \<Rightarrow> fl list list list" where
  "add3 s t = map2 (map2 (map2 fl_add)) s t"

text \<open>
  The loop of lines 836--844, at class \<open>i\<close>. Every turn passes the whole list
  \<open>utilities\<close> to the softmax, as the code does (the loop variable \<^verbatim>\<open>class_utilities\<close>
  is not used), after reading \<^verbatim>\<open>self.normalize_non_buy\<close>.
\<close>

fun class_probabilities_loop ::
  "('m, 'p, 'x, 'd) latent_substrate \<Rightarrow> bool option \<Rightarrow> fl list list list \<Rightarrow> bool list list
     \<Rightarrow> fl list \<Rightarrow> nat \<Rightarrow> fl list list list \<Rightarrow> fl list list list list
     \<Rightarrow> py_error + fl list list list list" where
  "class_probabilities_loop L nnb utilities avail prior i [] probabilities = Inr probabilities"
| "class_probabilities_loop L nnb utilities avail prior i (class_utilities # rest) probabilities =
     (case nnb of
        None \<Rightarrow> Inl AttributeError
      | Some normalize_exit \<Rightarrow>
          (let class_probabilities = lc_softmax_with_availabilities L utilities avail normalize_exit
           in if \<not> i < length prior then Inl InvalidArgumentError
              else class_probabilities_loop L nnb utilities avail prior (Suc i) rest
                     (probabilities @ [scale3 class_probabilities (prior ! i)])))"

text \<open>\<^verbatim>\<open>BaseLatentClassModel.batch_predict\<close> (lines 823--862). The sum over no class is a
  scalar, which has no \<^verbatim>\<open>shape[1]\<close>.\<close>

definition lc_batch_predict ::
  "('m, 'p, 'x, 'd) latent_substrate \<Rightarrow> ('m, 'p) latent_model \<Rightarrow> 'x batch \<Rightarrow> fl list option
     \<Rightarrow> py_error + (batch_loss \<times> fl list list list)" where
  "lc_batch_predict L self b sample_weight =
     (case lc_compute_batch_utility L self b of
        Inl e \<Rightarrow> Inl e
      | Inr utilities \<Rightarrow>
          (case latent_logits self of
             None \<Rightarrow> Inl AttributeError
           | Some logits \<Rightarrow>
               (case class_probabilities_loop L (lc_normalize_non_buy self) utilities
                       (available_items_batch b) (latent_probabilities logits) 0 utilities [] of
                  Inl e \<Rightarrow> Inl e
                | Inr [] \<Rightarrow> Inl IndexError
                | Inr (p # ps) \<Rightarrow>
                    (let probabilities = foldl add3 p ps;
                         y_true = one_hot (choices_batch b) (shape1 probabilities)
                     in Inr (\<lparr> optimized_loss = lc_loss L probabilities y_true sample_weight,
                                NegativeLogLikelihood =
                                  lc_categorical_crossentropy L probabilities y_true sample_weight \<rparr>,
                             probabilities)))))"

subsection \<open>Expectation and maximization\<close>

text \<open>Running a step that may raise over a list, stopping at the first exception.\<close>

fun map_raise :: "('a \<Rightarrow> py_error + 'b) \<Rightarrow> 'a list \<Rightarrow> py_error + 'b list" where
  "map_raise f [] = Inr []"
| "map_raise f (x # xs) =
     (case f x of
        Inl e \<Rightarrow> Inl e
      | Inr y \<Rightarrow> (case map_raise f xs of Inl e \<Rightarrow> Inl e | Inr ys \<Rightarrow> Inr (y # ys)))"

text \<open>
  \<^verbatim>\<open>tf.gather_nd(params=proba, indices=tf.stack([tf.range(0, n, 1), choices], axis=1))\<close>:
  the probability, in each row \<open>i < n\<close> of \<open>proba\<close>, of the item chosen in choice \<open>i\<close>.
  The two stacked vectors must have the same length, and an index outside the matrix is
  refused.
\<close>

definition gather_choices :: "fl list list \<Rightarrow> nat \<Rightarrow> nat list \<Rightarrow> py_error + fl list" where
  "gather_choices proba n choices =
     (if length choices \<noteq> n then Inl InvalidArgumentError
      else map_raise (\<lambda>(i, c). if i < length proba \<and> c < length (proba ! i)
                                 then Inr (proba ! i ! c) else Inl InvalidArgumentError)
             (zip [0..<n] choices))"

text \<open>\<^verbatim>\<open>np.stack(vectors, axis=1)\<close> of vectors of length \<open>n\<close>: no vector is an error.\<close>

definition stack_axis1 :: "fl list list \<Rightarrow> nat \<Rightarrow> py_error + matrix" where
  "stack_axis1 vectors n =
     (if vectors = [] then Inl ValueError
      else Inr \<lparr> ncols = length vectors, rows = map (\<lambda>i. map (\<lambda>v. v ! i) vectors) [0..<n] \<rparr>)"

text \<open>
  \<^verbatim>\<open>_expectation\<close> (lines 1199--1216): the responsibilities and the loss. The weight of
  a class is the entry of \<^verbatim>\<open>self.latent_logits\<close> that \<^verbatim>\<open>zip\<close> pairs with it; \<^verbatim>\<open>zip\<close>
  stops at the shorter of the two lists.
\<close>

definition expectation ::
  "('m, 'p, 'x, 'd) latent_substrate \<Rightarrow> ('m, 'p) latent_model \<Rightarrow> 'd
     \<Rightarrow> (py_error + matrix \<times> fl) \<times> ('m, 'p) latent_model" where
  "expectation L self dataset =
     (case models self of
        None \<Rightarrow> (Inl AttributeError, self)
      | Some ms \<Rightarrow>
          (case map_raise (\<lambda>model. m_predict_probas L model dataset) ms of
             Inl e \<Rightarrow> (Inl e, self)
           | Inr predicted_probas \<Rightarrow>
               (let self1 = (if list_ex (list_ex (list_ex isnan)) predicted_probas
                             then self\<lparr>printed := printed self @ [''Nan in probas'']\<rparr> else self)
                in case latent_logits self1 of
                     None \<Rightarrow> (Inl AttributeError, self1)
                   | Some logits \<Rightarrow>
                       (case map_raise
                               (\<lambda>(latent, proba).
                                  case gather_choices proba (lc_len L dataset)
                                         (dataset_choices L dataset) of
                                    Inl e \<Rightarrow> Inl e
                                  | Inr chosen \<Rightarrow> Inr (map (\<lambda>x. fl_mul latent x) chosen))
                               (zip logits predicted_probas) of
                          Inl e \<Rightarrow> (Inl e, self1)
                        | Inr weighted \<Rightarrow>
                            (case stack_axis1 weighted (lc_len L dataset) of
                               Inl e \<Rightarrow> (Inl e, self1)
                             | Inr stacked \<Rightarrow>
                                 (let predicted =
                                        map (map (\<lambda>x. fl_add x (Fin (1 / 10 ^ 10)))) (rows stacked);
                                      loss_value =
                                        reduce_sum (map (\<lambda>r. fl_log (reduce_sum r)) predicted)
                                  in (Inr (\<lparr> ncols = ncols stacked,
                                             rows = map (\<lambda>r. map (\<lambda>x. fl_div x (reduce_sum r)) r)
                                                        predicted \<rparr>,
                                           loss_value),
                                      self1)))))))"

text \<open>\<^verbatim>\<open>self.weights[:, q]\<close> and \<^verbatim>\<open>np.sum(self.weights, axis=0)\<close>\<close>

definition column :: "matrix \<Rightarrow> nat \<Rightarrow> py_error + fl list" where
  "column w q = (if q < ncols w then Inr (map (\<lambda>r. r ! q) (rows w)) else Inl IndexError)"

definition column_sums :: "matrix \<Rightarrow> fl list" where
  "column_sums w = map (\<lambda>q. reduce_sum (map (\<lambda>r. r ! q) (rows w))) [0..<ncols w]"

text \<open>
  The loop of \<^verbatim>\<open>_maximization\<close> (lines 1235--1236), at class \<open>q\<close> of \<open>n\<close>:
  \<^verbatim>\<open>self.models[q].fit(dataset, sample_weight=self.weights[:, q], verbose=verbose)\<close>,
  fitting the sub-model in place.
\<close>

function fit_classes ::
  "('m, 'p, 'x, 'd) latent_substrate \<Rightarrow> 'd \<Rightarrow> matrix \<Rightarrow> nat \<Rightarrow> nat \<Rightarrow> 'm list
     \<Rightarrow> py_error option \<times> 'm list" where
  "fit_classes L dataset w q n ms =
     (if \<not> q < n then (None, ms)
      else if \<not> q < length ms then (Some IndexError, ms)
      else
        (case column w q of
           Inl e \<Rightarrow> (Some e, ms)
         | Inr sample_weight \<Rightarrow>
             (case m_fit L (ms ! q) dataset sample_weight of
                Inl e \<Rightarrow> (Some e, ms)
              | Inr fitted_m \<Rightarrow> fit_classes L dataset w (Suc q) n (ms[q := fitted_m]))))"
  by pat_completeness auto
termination
  by (relation "measure (\<lambda>(L, dataset, w, q, n, ms). n - q)") auto

text \<open>\<^verbatim>\<open>_maximization\<close> (lines 1233--1241): the new sub-models are left in the object
  also when a fit raises.\<close>

definition maximization ::
  "('m, 'p, 'x, 'd) latent_substrate \<Rightarrow> ('m, 'p) latent_model \<Rightarrow> 'd
     \<Rightarrow> (py_error + fl list) \<times> ('m, 'p) latent_model" where
  "maximization L self dataset =
     (let self1 = self\<lparr>models := Some (map (model_class L) (model_parameters self))\<rparr>
      in case lc_weights self1 of
           None \<Rightarrow>
             (if 0 < n_latent_classes self1 \<and> model_parameters self1 = [] then Inl IndexError
              else Inl AttributeError, self1)
         | Some w \<Rightarrow>
             (case fit_classes L dataset w 0 (n_latent_classes self1)
                     (map (model_class L) (model_parameters self)) of
                (Some e, ms) \<Rightarrow> (Inl e, self1\<lparr>models := Some ms\<rparr>)
              | (None, ms) \<Rightarrow>
                  (let latent_probas = column_sums w
                   in (Inr (map (\<lambda>x. fl_div x (reduce_sum latent_probas)) latent_probas),
                       self1\<lparr>models := Some ms\<rparr>))))"

subsection \<open>The EM loop and fit\<close>

text \<open>The initialization of \<^verbatim>\<open>_em_fit\<close> (lines 1264--1266): every sub-model is fitted in
  place with fresh random sample weights; \<open>k\<close> counts the draws.\<close>

fun init_models ::
  "('m, 'p, 'x, 'd) latent_substrate \<Rightarrow> 'd \<Rightarrow> nat \<Rightarrow> 'm list \<Rightarrow> py_error option \<times> 'm list" where
  "init_models L dataset k [] = (None, [])"
| "init_models L dataset k (model # rest) =
     (case m_fit L model dataset (random_rand L k (lc_len L dataset)) of
        Inl e \<Rightarrow> (Some e, model # rest)
      | Inr fitted_m \<Rightarrow>
          (case init_models L dataset (Suc k) rest of (r, rest') \<Rightarrow> (r, fitted_m # rest')))"

text \<open>
  The loop of \<^verbatim>\<open>_em_fit\<close> (lines 1267--1274) with \<open>remaining\<close> iterations left, and the
  two histories so far. The new prior is assigned to \<^verbatim>\<open>self.latent_logits\<close> and
  appended to the history before it is tested for NaN.
\<close>

fun em_loop ::
  "('m, 'p, 'x, 'd) latent_substrate \<Rightarrow> 'd \<Rightarrow> nat \<Rightarrow> ('m, 'p) latent_model \<Rightarrow> fl list list
     \<Rightarrow> fl list \<Rightarrow> (py_error + fl list list \<times> fl list) \<times> ('m, 'p) latent_model" where
  "em_loop L dataset 0 self hist_logits hist_loss = (Inr (hist_logits, hist_loss), self)"
| "em_loop L dataset (Suc remaining) self hist_logits hist_loss =
     (case expectation L self dataset of
        (Inl e, self1) \<Rightarrow> (Inl e, self1)
      | (Inr (w, loss_value), self1) \<Rightarrow>
          (case maximization L (self1\<lparr>lc_weights := Some w\<rparr>) dataset of
             (Inl e, self3) \<Rightarrow> (Inl e, self3)
           | (Inr new_logits, self3) \<Rightarrow>
               (let self4 = self3\<lparr>latent_logits := Some new_logits\<rparr>;
                    hist_logits1 = hist_logits @ [new_logits];
                    hist_loss1 = hist_loss @ [loss_value]
                in if list_ex isnan new_logits
                   then (Inr (hist_logits1, hist_loss1),
                         self4\<lparr>printed := printed self4 @ [''Nan in logits'']\<rparr>)
                   else em_loop L dataset remaining self4 hist_logits1 hist_loss1)))"

text \<open>\<^verbatim>\<open>_em_fit(self, dataset, verbose=0)\<close> (lines 1260--1275).\<close>

definition em_fit ::
  "('m, 'p, 'x, 'd) latent_substrate \<Rightarrow> ('m, 'p) latent_model \<Rightarrow> 'd
     \<Rightarrow> (py_error + fl list list \<times> fl list) \<times> ('m, 'p) latent_model" where
  "em_fit L self dataset =
     (case models self of
        None \<Rightarrow> (Inl AttributeError, self)
      | Some ms \<Rightarrow>
          (case init_models L dataset 0 ms of
             (Some e, ms1) \<Rightarrow> (Inl e, self\<lparr>models := Some ms1\<rparr>)
           | (None, ms1) \<Rightarrow> em_loop L dataset (lc_epochs self) (self\<lparr>models := Some ms1\<rparr>) [] []))"

text \<open>
  A call that passes arguments by keyword: Python raises \<^verbatim>\<open>TypeError\<close> when a keyword
  is not the name of a parameter of the function called. \<open>em_fit_parameters\<close> are the
  parameters of \<^verbatim>\<open>_em_fit\<close> after \<^verbatim>\<open>self\<close>.
\<close>

definition bind_keywords :: "string list \<Rightarrow> string list \<Rightarrow> py_error + unit" where
  "bind_keywords parameters keywords =
     (if list_all (\<lambda>k. k \<in> set parameters) keywords then Inr () else Inl TypeError)"

definition em_fit_parameters :: "string list" where
  "em_fit_parameters = [''dataset'', ''verbose'']"

text \<open>What \<^verbatim>\<open>BaseLatentClassModel.fit\<close> returns: the two histories of the EM path, or the
  history of the L-BFGS path.\<close>

datatype fit_return = EM_histories "fl list list" "fl list" | LBFGS_history "fl list"

text \<open>
  \<^verbatim>\<open>BaseLatentClassModel.fit\<close> (lines 927--940). The EM branch calls
  \<^verbatim>\<open>self._em_fit(dataset=dataset, sample_weight=sample_weight, verbose=verbose)\<close>; the
  class has no method \<^verbatim>\<open>_fit_normal\<close>, and \<^verbatim>\<open>None\<close> has no \<^verbatim>\<open>lower\<close>.
\<close>

definition lc_fit ::
  "('m, 'p, 'x, 'd) latent_substrate \<Rightarrow> ('m, 'p) latent_model \<Rightarrow> 'd \<Rightarrow> fl list option
     \<Rightarrow> (py_error + fit_return) \<times> ('m, 'p) latent_model" where
  "lc_fit L self dataset sample_weight =
     (if str_lower (fit_method self) = ''em'' then
        (let self1 = self\<lparr>minf := Some (fl_log (Fin (1 / 10 ^ 3))),
                          printed := printed self
                            @ [''Expectation-Maximization estimation algorithm not well implemented yet.'']\<rparr>
         in case bind_keywords em_fit_parameters [''dataset'', ''sample_weight'', ''verbose''] of
              Inl e \<Rightarrow> (Inl e, self1)
            | Inr _ \<Rightarrow>
                (case em_fit L self1 dataset of
                   (Inl e, self2) \<Rightarrow> (Inl e, self2)
                 | (Inr (hist_logits, hist_loss), self2) \<Rightarrow>
                     (Inr (EM_histories hist_logits hist_loss), self2)))
      else if str_lower (fit_method self) = ''mle'' then
        (case lc_optimizer self of
           None \<Rightarrow> (Inl AttributeError, self)
         | Some opt \<Rightarrow>
             if str_lower opt = ''lbfgs'' \<or> str_lower opt = ''l-bfgs'' then
               (case lc_fit_with_lbfgs L self dataset sample_weight of
                  (Inl e, self2) \<Rightarrow> (Inl e, self2)
                | (Inr h, self2) \<Rightarrow> (Inr (LBFGS_history h), self2))
             else (Inl AttributeError, self))
      else (Inl ValueError, self))"


subsection \<open>An instance of the mixture\<close>

text \<open>
  Two items; a sub-model is one number, the probability it gives to the first item, or
  NaN once it has diverged; fitting a sub-model with a NaN among its sample weights makes
  it diverge, and any other fit leaves it as it is. The seeded initializer yields 0.01.
\<close>

definition example_latent_substrate :: "(fl, fl, unit, nat list) latent_substrate" where
  "example_latent_substrate =
     \<lparr> model_class = (\<lambda>p. p),
       m_instantiate = (\<lambda>m. m),
       m_compute_batch_utility = (\<lambda>m b. map (\<lambda>row. [fl_log m, Fin 0]) (available_items_batch b)),
       m_predict_probas = (\<lambda>m d. Inr (map (\<lambda>c. [m, fl_add (Fin 1) (fl_neg m)]) d)),
       m_fit = (\<lambda>m d sw. Inr (if list_ex isnan sw then NaN else m)),
       lc_softmax_with_availabilities = (\<lambda>u a nb. map (map (\<lambda>row. map (\<lambda>x. Fin (1 / 2)) row)) u),
       lc_loss = (\<lambda>p y sw. Fin 0),
       lc_categorical_crossentropy = (\<lambda>p y sw. Fin 0),
       random_normal = (\<lambda>i. Fin (1 / 100)),
       random_rand = (\<lambda>k n. replicate n (Fin (1 / 2))),
       dataset_choices = (\<lambda>d. d),
       lc_len = length,
       lc_fit_with_lbfgs = (\<lambda>self d sw. (Inr [], self)) \<rparr>"

text \<open>Two classes built by the constructor and \<^verbatim>\<open>instantiate\<close>, and a sub-model class
  whose every fit diverges.\<close>

definition example_latent_model :: "(fl, fl) latent_model" where
  "example_latent_model =
     projr (lc_instantiate example_latent_substrate
              (projr (BaseLatentClassModel_init 2 (Inr (Fin (1 / 2))) ''EM'' 3 None False
                        (1 / 10 ^ 6) (1 / 10 ^ 3))))"

definition example_diverging_substrate :: "(fl, fl, unit, nat list) latent_substrate" where
  "example_diverging_substrate = example_latent_substrate\<lparr>m_fit := (\<lambda>m d sw. Inr NaN)\<rparr>"

text \<open>
  That object after \<^verbatim>\<open>__init__\<close> has been run on it again for one class: the one logit
  and the two sub-models of \<^verbatim>\<open>instantiate\<close> are still there, so that
  \<^verbatim>\<open>latent_logits\<close> holds a weight for every class and the M-step finds the column it
  indexes.
\<close>

definition example_em_model :: "(fl, fl) latent_model" where
  "example_em_model =
     projr (BaseLatentClassModel_init_on example_latent_model 1 (Inr (Fin (1 / 2))) ''EM'' 3 None
              False (1 / 10 ^ 6) (1 / 10 ^ 3))"

text \<open>The same with a budget of one epoch.\<close>

definition example_em_model_one_epoch :: "(fl, fl) latent_model" where
  "example_em_model_one_epoch =
     projr (BaseLatentClassModel_init_on example_latent_model 1 (Inr (Fin (1 / 2))) ''EM'' 1 None
              False (1 / 10 ^ 6) (1 / 10 ^ 3))"


subsection \<open>What the specification says of the prior\<close>





section \<open>Properties\<close>

subsection \<open>The optimizer named in the constructor\<close>

lemma str_lower_examples:
  "str_lower ''Adam'' = ''adam''" "str_lower ''SGD'' = ''sgd''" "str_lower ''ADAMAX'' = ''adamax''"
  "str_lower ''adaMax'' = ''adamax''" "str_lower ''L-BFGS'' = ''l-bfgs''"
  "str_lower ''xyz_not_implemented'' = ''xyz_not_implemented''"
  by code_simp+

text \<open>An L-BFGS name builds no optimizer: it rebinds \<^verbatim>\<open>fit\<close>.\<close>

lemma ChoiceModel_init_lbfgs:
  assumes "str_lower name = ''lbfgs'' \<or> str_lower name = ''l-bfgs''"
  shows "optimizer (fst (ChoiceModel_init ls nnb name tol lr ep bs)) = None"
    and "fit_is_lbfgs (fst (ChoiceModel_init ls nnb name tol lr ep bs))"
  using assms by (auto simp: ChoiceModel_init_def)

text \<open>
  Claim C3. The constructor is a total function of the optimizer name: it never raises.
  A name that lowers to \<open>adam\<close>, \<open>sgd\<close> or \<open>adamax\<close> selects that optimizer with the given
  learning rate and prints nothing; a name that the constructor does not recognise (it
  also knows \<open>lbfgs\<close> and \<open>l-bfgs\<close>) selects Adam with the given learning rate, and the
  one line printed is the warning.
\<close>

theorem C3_optimizer_by_name:
  "(str_lower name = ''adam'' \<longrightarrow>
      optimizer (fst (ChoiceModel_init ls nnb name tol lr ep bs)) = Some (Adam lr)
      \<and> snd (ChoiceModel_init ls nnb name tol lr ep bs) = [])
   \<and> (str_lower name = ''sgd'' \<longrightarrow>
      optimizer (fst (ChoiceModel_init ls nnb name tol lr ep bs)) = Some (SGD lr)
      \<and> snd (ChoiceModel_init ls nnb name tol lr ep bs) = [])
   \<and> (str_lower name = ''adamax'' \<longrightarrow>
      optimizer (fst (ChoiceModel_init ls nnb name tol lr ep bs)) = Some (Adamax lr)
      \<and> snd (ChoiceModel_init ls nnb name tol lr ep bs) = [])
   \<and> (str_lower name \<notin> set [''adam'', ''sgd'', ''adamax'', ''lbfgs'', ''l-bfgs''] \<longrightarrow>
      optimizer (fst (ChoiceModel_init ls nnb name tol lr ep bs)) = Some (Adam lr)
      \<and> snd (ChoiceModel_init ls nnb name tol lr ep bs)
          = [''Optimizer '' @ name @ '' not implemnted, switching for default Adam''])"
  by (simp add: ChoiceModel_init_def Let_def)

theorem C3_optimizer_by_name_witness:
  "optimizer (fst (ChoiceModel_init 0 False ''SGD'' (1 / 10 ^ 8) (1 / 10 ^ 6) 30 32))
     = Some (SGD (1 / 10 ^ 6))
   \<and> optimizer (fst (ChoiceModel_init 0 False ''adaMax'' (1 / 10 ^ 8) (1 / 10 ^ 3) 20 32))
     = Some (Adamax (1 / 10 ^ 3))
   \<and> optimizer (fst (ChoiceModel_init 0 False ''Adam'' (1 / 10 ^ 8) (1 / 10 ^ 3) 20 32))
     = Some (Adam (1 / 10 ^ 3))
   \<and> optimizer (fst (ChoiceModel_init 0 False ''xyz_not_implemented'' (1 / 10 ^ 8) (1 / 10 ^ 3) 20 32))
     = Some (Adam (1 / 10 ^ 3))
   \<and> snd (ChoiceModel_init 0 False ''xyz_not_implemented'' (1 / 10 ^ 8) (1 / 10 ^ 3) 20 32)
     = [''Optimizer xyz_not_implemented not implemnted, switching for default Adam'']"
proof -
  note l = str_lower_examples
  have a: "optimizer (fst (ChoiceModel_init 0 False ''SGD'' (1 / 10 ^ 8) (1 / 10 ^ 6) 30 32))
     = Some (SGD (1 / 10 ^ 6))"
    using C3_optimizer_by_name [of "''SGD''" 0 False "1 / 10 ^ 8" "1 / 10 ^ 6" 30 32]
    by (simp add: l)
  have b: "optimizer (fst (ChoiceModel_init 0 False ''adaMax'' (1 / 10 ^ 8) (1 / 10 ^ 3) 20 32))
     = Some (Adamax (1 / 10 ^ 3))"
    using C3_optimizer_by_name [of "''adaMax''" 0 False "1 / 10 ^ 8" "1 / 10 ^ 3" 20 32]
    by (simp add: l)
  have c: "optimizer (fst (ChoiceModel_init 0 False ''Adam'' (1 / 10 ^ 8) (1 / 10 ^ 3) 20 32))
     = Some (Adam (1 / 10 ^ 3))"
    using C3_optimizer_by_name [of "''Adam''" 0 False "1 / 10 ^ 8" "1 / 10 ^ 3" 20 32]
    by (simp add: l)
  have d: "optimizer (fst (ChoiceModel_init 0 False ''xyz_not_implemented'' (1 / 10 ^ 8) (1 / 10 ^ 3) 20 32))
     = Some (Adam (1 / 10 ^ 3))
   \<and> snd (ChoiceModel_init 0 False ''xyz_not_implemented'' (1 / 10 ^ 8) (1 / 10 ^ 3) 20 32)
     = [''Optimizer xyz_not_implemented not implemnted, switching for default Adam'']"
    using C3_optimizer_by_name [of "''xyz_not_implemented''" 0 False "1 / 10 ^ 8" "1 / 10 ^ 3" 20 32]
    by (simp add: l)
  show ?thesis using a b c d by blast
qed

subsection \<open>The effect of the loops of fit\<close>

lemma fire_fields [simp]:
  "trace (fire E h lg st) = trace st @ [Hook h]"
  "self_obj (fire E h lg st) = callbacks E h lg (self_obj st)"
  "train_loss_history (fire E h lg st) = train_loss_history st"
  "test_loss_history (fire E h lg st) = test_loss_history st"
  "last_available_items_batch (fire E h lg st) = last_available_items_batch st"
  "train_logs (fire E h lg st) = train_logs st"
  "val_logs (fire E h lg st) = val_logs st"
  "epoch_losses_var (fire E h lg st) = epoch_losses_var st"
  "test_losses_var (fire E h lg st) = test_losses_var st"
  by (simp_all add: fire_def)

lemma train_batch_hooks_Suc:
  "train_batch_hooks n (Suc c)
     = [Hook (On_train_batch_begin n), Hook (On_train_batch_end n)] @ train_batch_hooks (Suc n) c"
  by (simp add: train_batch_hooks_def upt_conv_Cons)

lemma val_batch_hooks_Suc:
  "val_batch_hooks n (Suc c)
     = [Hook (On_batch_begin n), Hook (On_test_batch_begin n), Hook (On_test_batch_end n)]
       @ val_batch_hooks (Suc n) c"
  by (simp add: val_batch_hooks_def upt_conv_Cons)

lemma train_batches_effect:
  "train_batches E n bs st = Inr st' \<Longrightarrow>
     trace st' = trace st @ train_batch_hooks n (length bs)
     \<and> train_loss_history st' = train_loss_history st
     \<and> test_loss_history st' = test_loss_history st
     \<and> length (epoch_losses_var st') = length (epoch_losses_var st) + length bs
     \<and> last_available_items_batch st'
         = (if bs = [] then last_available_items_batch st
            else Some (available_items_batch (fst (last bs))))"
proof (induction bs arbitrary: n st)
  case Nil
  then show ?case by (simp add: train_batch_hooks_def)
next
  case (Cons p bs)
  obtain b wb where p: "p = (b, wb)" by (cases p)
  let ?st1 = "fire E (On_train_batch_begin n) None
                (st\<lparr>last_available_items_batch := Some (available_items_batch b)\<rparr>)"
  obtain r self2 where ts: "train_step E (self_obj ?st1) b wb = (r, self2)"
    by (cases "train_step E (self_obj ?st1) b wb")
  from Cons.prems p ts obtain l where r: "r = Inr l"
    by (cases r) (auto simp: Let_def)
  let ?st2 = "?st1\<lparr>self_obj := self2, train_logs := logs_append ''train_loss'' l (train_logs ?st1)\<rparr>"
  let ?st3 = "fire E (On_train_batch_end n) (Some (temps_logs (train_logs ?st2))) ?st2"
  let ?st4 = "?st3\<lparr>epoch_losses_var := epoch_losses_var ?st3 @ [l]\<rparr>"
  from Cons.prems p ts r have rec: "train_batches E (Suc n) bs ?st4 = Inr st'"
    by (simp add: Let_def)
  from Cons.IH [OF rec] show ?case
    by (simp add: p train_batch_hooks_Suc)
qed

lemma val_batches_effect:
  "trace (val_batches E n bs st) = trace st @ val_batch_hooks n (length bs)
   \<and> train_loss_history (val_batches E n bs st) = train_loss_history st"
proof (induction bs arbitrary: n st)
  case Nil
  then show ?case by (simp add: val_batch_hooks_def)
next
  case (Cons p bs)
  obtain b wb where p: "p = (b, wb)" by (cases p)
  show ?case
    by (simp add: p Let_def split: prod.split) (simp add: Cons.IH val_batch_hooks_Suc)
qed

lemma train_epoch_effect:
  assumes "train_epoch E ds sw bs k st = Inr st2"
  shows "trace st2 = trace st @ [Hook (On_epoch_begin k)]
                       @ train_batch_hooks 0 (length (iter_batch E ds True sw bs k))"
    and "train_loss_history st2 = train_loss_history st"
    and "length (epoch_losses_var st2) = length (iter_batch E ds True sw bs k)"
    and "last_available_items_batch st2
         = (if iter_batch E ds True sw bs k = [] then last_available_items_batch st
            else Some (available_items_batch (fst (last (iter_batch E ds True sw bs k)))))"
  using train_batches_effect [OF assms [unfolded train_epoch_def Let_def]]
  by simp_all

lemma run_epoch_effect:
  assumes "run_epoch E ds sw vd bs k st = Inr st'"
  shows "\<exists>st2 v. train_epoch E ds sw bs k st = Inr st2
           \<and> epoch_loss bs (epoch_losses_var st2) (last_available_items_batch st2) (len E ds) = Inr v
           \<and> train_loss_history st' = train_loss_history st @ [v]
           \<and> trace st' = trace st @ complete_epoch E ds sw vd bs k"
proof -
  from assms obtain st2 where te: "train_epoch E ds sw bs k st = Inr st2"
    by (cases "train_epoch E ds sw bs k st") (auto simp: run_epoch_def)
  from assms te obtain v where
    el: "epoch_loss bs (epoch_losses_var st2) (last_available_items_batch st2) (len E ds) = Inr v"
    by (cases "epoch_loss bs (epoch_losses_var st2) (last_available_items_batch st2) (len E ds)")
       (auto simp: run_epoch_def)
  note eff = train_epoch_effect [OF te]
  from assms te el have
    "train_loss_history st' = train_loss_history st @ [v]
     \<and> trace st' = trace st @ complete_epoch E ds sw vd bs k"
    by (cases vd)
       (auto simp: run_epoch_def Let_def complete_epoch_def eff val_batches_effect)
  with te el show ?thesis by blast
qed

lemma epoch_loop_stops:
  assumes "epoch_loop E ds sw vd bs r k st = Inr st'" and "0 < r"
  shows "\<exists>j. j < r
           \<and> epochs_done E ds sw vd bs (Suc j) k st = Inr st'
           \<and> (\<forall>i<j. \<exists>sti. epochs_done E ds sw vd bs (Suc i) k st = Inr sti
                          \<and> \<not> stop_training (hyper (self_obj sti)))
           \<and> (stop_training (hyper (self_obj st')) \<or> Suc j = r)
           \<and> trace st' = trace st
                @ concat (map (\<lambda>i. complete_epoch E ds sw vd bs i @ [Read_stop_training False])
                              [k..<k + j])
                @ complete_epoch E ds sw vd bs (k + j)
                @ [Read_stop_training (stop_training (hyper (self_obj st')))]"
  using assms
proof (induction r arbitrary: k st)
  case 0
  then show ?case by simp
next
  case (Suc r)
  let ?ce = "\<lambda>i. complete_epoch E ds sw vd bs i"
  let ?stop = "\<lambda>s. stop_training (hyper (self_obj s))"
  from Suc.prems(1) obtain st1 where re: "run_epoch E ds sw vd bs k st = Inr st1"
    by (cases "run_epoch E ds sw vd bs k st") auto
  from run_epoch_effect [OF re] have tr1: "trace st1 = trace st @ ?ce k" by blast
  let ?st2 = "st1\<lparr>trace := trace st1 @ [Read_stop_training (?stop st1)]\<rparr>"
  have step: "epochs_done E ds sw vd bs (Suc m) k st = epochs_done E ds sw vd bs m (Suc k) ?st2"
    for m
    by (simp add: re)
  have one: "epochs_done E ds sw vd bs (Suc 0) k st = Inr ?st2"
    by (simp add: re)
  have obj: "?stop ?st2 = ?stop st1"
    by simp
  show ?case
  proof (cases "?stop st1")
    case True
    with Suc.prems(1) re have st': "st' = ?st2" by (simp add: Let_def)
    have "trace ?st2 = trace st
            @ concat (map (\<lambda>i. ?ce i @ [Read_stop_training False]) [k..<k + 0])
            @ ?ce (k + 0) @ [Read_stop_training (?stop ?st2)]"
      using tr1 by simp
    with one True obj show ?thesis
      unfolding st' by (intro exI [where x = 0]) simp
  next
    case False
    with Suc.prems(1) re have rest: "epoch_loop E ds sw vd bs r (Suc k) ?st2 = Inr st'"
      by (simp add: Let_def)
    show ?thesis
    proof (cases r)
      case 0
      with rest have st': "st' = ?st2" by simp
      have "trace ?st2 = trace st
              @ concat (map (\<lambda>i. ?ce i @ [Read_stop_training False]) [k..<k + 0])
              @ ?ce (k + 0) @ [Read_stop_training (?stop ?st2)]"
        using tr1 by simp
      with one 0 show ?thesis
        unfolding st' by (intro exI [where x = 0]) simp
    next
      case (Suc r')
      then have "0 < r" by simp
      from Suc.IH [OF rest this] obtain j where
        j: "j < r"
        and fin: "epochs_done E ds sw vd bs (Suc j) (Suc k) ?st2 = Inr st'"
        and before: "\<forall>i<j. \<exists>sti. epochs_done E ds sw vd bs (Suc i) (Suc k) ?st2 = Inr sti
                                \<and> \<not> ?stop sti"
        and last: "?stop st' \<or> Suc j = r"
        and tr: "trace st' = trace ?st2
                @ concat (map (\<lambda>i. ?ce i @ [Read_stop_training False]) [Suc k..<Suc k + j])
                @ ?ce (Suc k + j) @ [Read_stop_training (?stop st')]"
        by blast
      have "[k..<k + Suc j] = k # [Suc k..<Suc k + j]"
        by (simp add: upt_conv_Cons)
      with tr tr1 False have tr': "trace st' = trace st
                @ concat (map (\<lambda>i. ?ce i @ [Read_stop_training False]) [k..<k + Suc j])
                @ ?ce (k + Suc j) @ [Read_stop_training (?stop st')]"
        by simp
      have fin': "epochs_done E ds sw vd bs (Suc (Suc j)) k st = Inr st'"
        using fin by (simp only: step)
      have before': "\<exists>sti. epochs_done E ds sw vd bs (Suc i) k st = Inr sti \<and> \<not> ?stop sti"
        if "i < Suc j" for i
      proof (cases i)
        case 0
        with one False obj show ?thesis by simp
      next
        case (Suc i')
        with that have "i' < j" by simp
        with before obtain sti where
          "epochs_done E ds sw vd bs (Suc i') (Suc k) ?st2 = Inr sti" "\<not> ?stop sti"
          by blast
        then show ?thesis
          unfolding Suc by (simp only: step) blast
      qed
      from j last have "Suc j < Suc r" "?stop st' \<or> Suc (Suc j) = Suc r" by auto
      with fin' before' tr' show ?thesis
        by (intro exI [where x = "Suc j"]) blast
    qed
  qed
qed

lemma train_batch_hooks_length: "length (train_batch_hooks n c) = 2 * c"
  by (induction c arbitrary: n) (simp_all add: train_batch_hooks_def train_batch_hooks_Suc)

lemma val_batch_hooks_length: "length (val_batch_hooks n c) = 3 * c"
  by (induction c arbitrary: n) (simp_all add: val_batch_hooks_def val_batch_hooks_Suc)

lemma length_concat_blocks:
  "(\<And>k. length (f k) = c) \<Longrightarrow> length (concat (map f [0..<j])) = c * j"
  by (induction j) simp_all


subsection \<open>The stop flag\<close>

text \<open>The instance: the stop is requested at the first batch of epoch 1, both batches
  of that epoch and its validation pass still run, and epoch 2 never begins.\<close>

lemma example_fit_events:
  "map_sum id events (fit example_substrate example_model 3 None (Some 3) None None)
     = Inr [Hook On_train_begin,
            Hook (On_epoch_begin 0),
            Hook (On_train_batch_begin 0), Hook (On_train_batch_end 0),
            Hook (On_train_batch_begin 1), Hook (On_train_batch_end 1),
            Hook (On_batch_begin 0), Hook (On_test_batch_begin 0), Hook (On_test_batch_end 0),
            Hook (On_batch_begin 1), Hook (On_test_batch_begin 1), Hook (On_test_batch_end 1),
            Hook (On_epoch_end 0), Read_stop_training False,
            Hook (On_epoch_begin 1),
            Hook (On_train_batch_begin 0), Hook (On_train_batch_end 0),
            Hook (On_train_batch_begin 1), Hook (On_train_batch_end 1),
            Hook (On_batch_begin 0), Hook (On_test_batch_begin 0), Hook (On_test_batch_end 0),
            Hook (On_batch_begin 1), Hook (On_test_batch_begin 1), Hook (On_test_batch_end 1),
            Hook (On_epoch_end 1), Read_stop_training True,
            Hook On_train_end]"
  by code_simp

lemma example_complete_epoch_length:
  "length (complete_epoch example_substrate 3 None (Some 3) 2 k) = 12"
  by (simp add: complete_epoch_def example_substrate_def train_batch_hooks_length
        val_batch_hooks_length)


text \<open>
  Claim C9. Whenever \<^verbatim>\<open>fit\<close> returns, it has run the epochs \<open>0, \<dots>, j\<close> and no other, and
  the events of the call are: the start of training; then each of these epochs complete,
  with every training batch, every validation batch and its \<^verbatim>\<open>on_epoch_end\<close>, and
  followed by exactly one read of \<^verbatim>\<open>self.stop_training\<close>; then the end of training.
  Every read is tied to the object: after each epoch before \<open>j\<close> the flag of the object,
  as \<^verbatim>\<open>on_epoch_end\<close> left it, was unset; the read after epoch \<open>j\<close> returned the flag of the
  object at that moment, and either it was set or \<open>j\<close> was the last epoch of the budget.
  So the loop goes on exactly as long as the flag is unset at the end of an epoch, and
  leaves as soon as it is set there. The callbacks are arbitrary: whatever hook sets the
  flag, the epoch in which it is set is completed, and no later epoch begins. The object
  returned is that of the end of epoch \<open>j\<close>, after \<^verbatim>\<open>on_train_end\<close>.
\<close>

theorem C9_stop_flag_read_once_per_epoch:
  assumes "fit E self ds sw vd ep bs = Inr res"
  shows "\<exists>j st.
           j < (case ep of None \<Rightarrow> epochs (hyper self) | Some e \<Rightarrow> e)
           \<and> epochs_done E ds sw vd (case bs of None \<Rightarrow> batch_size (hyper self) | Some b \<Rightarrow> b)
                 (Suc j) 0 (train_begin E self) = Inr st
           \<and> (\<forall>i<j. \<exists>sti.
                  epochs_done E ds sw vd (case bs of None \<Rightarrow> batch_size (hyper self) | Some b \<Rightarrow> b)
                    (Suc i) 0 (train_begin E self) = Inr sti
                  \<and> \<not> stop_training (hyper (self_obj sti)))
           \<and> (stop_training (hyper (self_obj st))
                \<or> Suc j = (case ep of None \<Rightarrow> epochs (hyper self) | Some e \<Rightarrow> e))
           \<and> events res
               = [Hook On_train_begin]
                 @ concat (map (\<lambda>k. complete_epoch E ds sw vd
                                      (case bs of None \<Rightarrow> batch_size (hyper self) | Some b \<Rightarrow> b) k
                                    @ [Read_stop_training False]) [0..<j])
                 @ complete_epoch E ds sw vd
                     (case bs of None \<Rightarrow> batch_size (hyper self) | Some b \<Rightarrow> b) j
                 @ [Read_stop_training (stop_training (hyper (self_obj st))), Hook On_train_end]
           \<and> fitted res
               = callbacks E On_train_end (Some (temps_logs (train_logs st))) (self_obj st)"
proof -
  let ?n = "case ep of None \<Rightarrow> epochs (hyper self) | Some e \<Rightarrow> e"
  let ?b = "case bs of None \<Rightarrow> batch_size (hyper self) | Some b \<Rightarrow> b"
  let ?st0 = "train_begin E self"
  from assms have inst: "instantiated self \<noteq> Some False"
    by (auto simp: fit_def)
  with assms obtain st where lp: "epoch_loop E ds sw vd ?b ?n 0 ?st0 = Inr st"
    by (cases "epoch_loop E ds sw vd ?b ?n 0 ?st0") (auto simp: fit_def train_begin_def Let_def)
  from assms inst lp have pos: "0 < ?n"
    by (cases "?n = 0") (auto simp: fit_def train_begin_def Let_def)
  from assms inst lp pos have ev: "events res = trace st @ [Hook On_train_end]"
    and ob: "fitted res = callbacks E On_train_end (Some (temps_logs (train_logs st))) (self_obj st)"
    by (auto simp: fit_def train_begin_def Let_def)
  have t0: "trace ?st0 = [Hook On_train_begin]"
    by (simp add: train_begin_def)
  from epoch_loop_stops [OF lp pos] obtain j where
    j: "j < ?n"
    and fin: "epochs_done E ds sw vd ?b (Suc j) 0 ?st0 = Inr st"
    and before: "\<forall>i<j. \<exists>sti. epochs_done E ds sw vd ?b (Suc i) 0 ?st0 = Inr sti
                            \<and> \<not> stop_training (hyper (self_obj sti))"
    and last: "stop_training (hyper (self_obj st)) \<or> Suc j = ?n"
    and tr: "trace st = trace ?st0
       @ concat (map (\<lambda>i. complete_epoch E ds sw vd ?b i @ [Read_stop_training False]) [0..<0 + j])
       @ complete_epoch E ds sw vd ?b (0 + j)
       @ [Read_stop_training (stop_training (hyper (self_obj st)))]"
    by blast
  from ev tr t0 have ev': "events res
               = [Hook On_train_begin]
                 @ concat (map (\<lambda>k. complete_epoch E ds sw vd ?b k
                                    @ [Read_stop_training False]) [0..<j])
                 @ complete_epoch E ds sw vd ?b j
                 @ [Read_stop_training (stop_training (hyper (self_obj st))), Hook On_train_end]"
    by simp
  show ?thesis
    by (rule exI [where x = j], rule exI [where x = st]) (intro conjI j fin before last ev' ob)
qed

theorem C9_stop_flag_read_once_per_epoch_witness:
  "\<exists>res st0 st1.
      fit example_substrate example_model 3 None (Some 3) None None = Inr res
      \<and> epochs_done example_substrate 3 None (Some 3) 2 (Suc 0) 0
            (train_begin example_substrate example_model) = Inr st0
      \<and> \<not> stop_training (hyper (self_obj st0))
      \<and> epochs_done example_substrate 3 None (Some 3) 2 (Suc (Suc 0)) 0
            (train_begin example_substrate example_model) = Inr st1
      \<and> stop_training (hyper (self_obj st1))
      \<and> events res
          = [Hook On_train_begin]
            @ complete_epoch example_substrate 3 None (Some 3) 2 0 @ [Read_stop_training False]
            @ complete_epoch example_substrate 3 None (Some 3) 2 1
            @ [Read_stop_training True, Hook On_train_end]"
proof -
  let ?ce = "complete_epoch example_substrate 3 None (Some 3) 2"
  let ?after = "\<lambda>m. epochs_done example_substrate 3 None (Some 3) 2 m 0
                      (train_begin example_substrate example_model)"
  have "\<not> isl (fit example_substrate example_model 3 None (Some 3) None None)"
    by code_simp
  then obtain res where r: "fit example_substrate example_model 3 None (Some 3) None None = Inr res"
    by (cases "fit example_substrate example_model 3 None (Some 3) None None") auto
  have h: "epochs (hyper example_model) = 3" "batch_size (hyper example_model) = 2"
    by code_simp+
  from example_fit_events r have len: "length (events res) = 28"
    by simp
  from C9_stop_flag_read_once_per_epoch [OF r] obtain j st where
    j: "j < 3"
    and fin: "?after (Suc j) = Inr st"
    and before: "\<forall>i<j. \<exists>sti. ?after (Suc i) = Inr sti \<and> \<not> stop_training (hyper (self_obj sti))"
    and last: "stop_training (hyper (self_obj st)) \<or> Suc j = 3"
    and ev: "events res
               = [Hook On_train_begin]
                 @ concat (map (\<lambda>k. ?ce k @ [Read_stop_training False]) [0..<j])
                 @ ?ce j
                 @ [Read_stop_training (stop_training (hyper (self_obj st))), Hook On_train_end]"
    by (auto simp: h)
  have "length (concat (map (\<lambda>k. ?ce k @ [Read_stop_training False]) [0..<j])) = 13 * j"
    by (rule length_concat_blocks) (simp add: example_complete_epoch_length)
  with ev len have "13 * j + 15 = 28"
    by (simp add: example_complete_epoch_length)
  then have j1: "j = 1" by simp
  from before j1 obtain st0 where
    st0: "?after (Suc 0) = Inr st0" "\<not> stop_training (hyper (self_obj st0))"
    by auto
  from last j1 have set: "stop_training (hyper (self_obj st))" by simp
  from ev j1 set have ev1: "events res
          = [Hook On_train_begin] @ ?ce 0 @ [Read_stop_training False]
            @ ?ce 1 @ [Read_stop_training True, Hook On_train_end]"
    by simp
  from fin j1 have st1: "?after (Suc (Suc 0)) = Inr st" by simp
  show ?thesis
    by (rule exI [where x = res], rule exI [where x = st0], rule exI [where x = st])
       (intro conjI r st0 st1 set ev1)
qed


subsection \<open>The loss recorded for an epoch\<close>

lemma reduce_sum_Fin: "reduce_sum (map Fin xs) = Fin (sum_list xs)"
  by (induction xs) (simp_all add: reduce_sum_def)

lemma reduce_mean_Fin:
  "xs \<noteq> [] \<Longrightarrow> reduce_mean (map Fin xs) = Fin (sum_list xs / real (length xs))"
  by (simp add: reduce_mean_def reduce_sum_Fin fl_of_nat_def)

lemma reduce_mean_Nil: "reduce_mean [] = NaN"
  by (simp add: reduce_mean_def reduce_sum_def fl_of_nat_def)

lemma map2_fl_mul_Fin:
  "map2 fl_mul (map Fin xs) (map Fin cs) = map Fin (map2 (*) xs cs)"
proof (induction xs arbitrary: cs)
  case Nil
  then show ?case by simp
next
  case (Cons x xs)
  then show ?case by (cases cs) simp_all
qed

lemma epoch_loss_finite:
  assumes "xs \<noteq> []" and "bs \<noteq> - 1" and "0 < n"
  shows "epoch_loss bs (map Fin xs) (Some avail) n
          = Inr (Fin (size_weighted_mean (real_of_int bs) xs (real (length avail)) (real n)))"
proof -
  let ?cs = "replicate (length xs - 1) (real_of_int bs) @ [real (length avail)]"
  have coeff: "replicate (length xs - Suc 0) (fl_mul (Fin 1) (fl_of_int bs))
                 @ [Fin (real (length avail))] = map Fin ?cs"
    by (simp add: fl_of_int_def)
  from assms(1) have xs: "xs = butlast xs @ [last xs]" by simp
  have "map2 (*) (butlast xs @ [last xs]) ?cs
          = map (\<lambda>l. l * real_of_int bs) (butlast xs) @ [last xs * real (length avail)]"
    by (simp add: zip_append1 map_zip_map2 zip_replicate2 flip: map_fst_zip) 
  then have "sum_list (map2 (*) (butlast xs @ [last xs]) ?cs)
          = sum_list (map (\<lambda>l. real_of_int bs * l) (butlast xs)) + real (length avail) * last xs"
    by (simp add: mult.commute)
  with xs have s: "sum_list (map2 (*) xs ?cs)
          = sum_list (map (\<lambda>l. real_of_int bs * l) (butlast xs)) + real (length avail) * last xs"
    by simp
  have "epoch_loss bs (map Fin xs) (Some avail) n
          = Inr (fl_div (reduce_sum (map2 fl_mul (map Fin xs) (map Fin ?cs))) (Fin (real n)))"
    using assms by (simp add: epoch_loss_def Let_def coeff fl_of_nat_def del: map_append)
  also have "reduce_sum (map2 fl_mul (map Fin xs) (map Fin ?cs)) = Fin (sum_list (map2 (*) xs ?cs))"
    by (simp only: map2_fl_mul_Fin reduce_sum_Fin)
  finally show ?thesis
    using assms(3) s by (simp add: size_weighted_mean_def)
qed


text \<open>
  Claim C4. In every epoch that \<^verbatim>\<open>fit\<close> completes, with finite batch losses \<open>xs\<close>
  (one per batch of the pass, in order) and a dataset that is not empty, the value
  appended to the training-loss history is the size-weighted mean of the specification
  (every batch but the last weighted by the requested batch size, the last by the number
  of rows it really has, divided by the length of the dataset) when the batch size is not
  \<open>-1\<close>, and the plain mean of the batch losses when it is \<open>-1\<close>.
\<close>

theorem C4_epoch_loss_is_size_weighted_mean:
  assumes run: "run_epoch E ds sw vd bs k st = Inr st'"
      and te: "train_epoch E ds sw bs k st = Inr st2"
      and fin: "epoch_losses_var st2 = map Fin xs"
      and len: "0 < len E ds"
  shows "length xs = length (iter_batch E ds True sw bs k)
         \<and> train_loss_history st'
             = train_loss_history st
               @ [if bs \<noteq> - 1 then
                    Fin (size_weighted_mean (real_of_int bs) xs
                           (real (length (available_items_batch
                                            (fst (last (iter_batch E ds True sw bs k))))))
                           (real (len E ds)))
                  else if xs = [] then NaN
                  else Fin (sum_list xs / real (length xs))]"
proof -
  let ?batches = "iter_batch E ds True sw bs k"
  note eff = train_epoch_effect [OF te]
  from eff(3) fin have n: "length xs = length ?batches" by simp
  from run_epoch_effect [OF run] te obtain v where
    v: "epoch_loss bs (epoch_losses_var st2) (last_available_items_batch st2) (len E ds) = Inr v"
    and h: "train_loss_history st' = train_loss_history st @ [v]"
    by auto
  have "v = (if bs \<noteq> - 1 then
                    Fin (size_weighted_mean (real_of_int bs) xs
                           (real (length (available_items_batch (fst (last ?batches)))))
                           (real (len E ds)))
                  else if xs = [] then NaN
                  else Fin (sum_list xs / real (length xs)))"
  proof (cases "bs = - 1")
    case True
    with v fin show ?thesis
      by (cases "xs = []") (simp_all add: epoch_loss_def reduce_mean_Fin reduce_mean_Nil)
  next
    case False
    with v fin have ne: "xs \<noteq> []"
      by (auto simp: epoch_loss_def split: option.splits)
    with n have "?batches \<noteq> []" by auto
    with eff(4) have la: "last_available_items_batch st2
                          = Some (available_items_batch (fst (last ?batches)))"
      by simp
    from v show ?thesis
      unfolding fin la using False epoch_loss_finite [OF ne False len] by simp
  qed
  with n h show ?thesis by simp
qed

theorem C4_epoch_loss_is_size_weighted_mean_witness:
  "\<exists>st' st2.
      run_epoch example_substrate 3 None None 2 0 example_fit_state = Inr st'
      \<and> train_epoch example_substrate 3 None 2 0 example_fit_state = Inr st2
      \<and> epoch_losses_var st2 = map Fin [2, 1]
      \<and> train_loss_history st' = [Fin (5 / 3)]"
proof -
  have "\<not> isl (run_epoch example_substrate 3 None None 2 0 example_fit_state)"
    by code_simp
  then obtain st' where r: "run_epoch example_substrate 3 None None 2 0 example_fit_state = Inr st'"
    by (cases "run_epoch example_substrate 3 None None 2 0 example_fit_state") auto
  have "map_sum id epoch_losses_var (train_epoch example_substrate 3 None 2 0 example_fit_state)
          = Inr (map Fin [2, 1])"
    by code_simp
  then obtain st2 where t: "train_epoch example_substrate 3 None 2 0 example_fit_state = Inr st2"
    and l: "epoch_losses_var st2 = map Fin [2, 1]"
    by (cases "train_epoch example_substrate 3 None 2 0 example_fit_state") auto
  have n3: "len example_substrate 3 = 3" by (simp add: example_substrate_def)
  then have n: "0 < len example_substrate 3" by simp
  have a: "length (available_items_batch (fst (last (iter_batch example_substrate 3 True None 2 0)))) = 1"
    by code_simp
  have h: "train_loss_history example_fit_state = []" by code_simp
  have "train_loss_history st' = [Fin (5 / 3)]"
    using C4_epoch_loss_is_size_weighted_mean [OF r t l n]
    by (simp add: a h n3 size_weighted_mean_def)
  with r t l show ?thesis by blast
qed


subsection \<open>Inference writes no parameter\<close>

lemma batch_predict_frame:
  assumes "\<And>m b. weights (snd (compute_batch_utility E m b)) = weights m
                 \<and> optimizer_state (snd (compute_batch_utility E m b)) = optimizer_state m"
  shows "weights (snd (batch_predict E self b sw)) = weights self
         \<and> optimizer_state (snd (batch_predict E self b sw)) = optimizer_state self"
  using assms [of self b]
  by (simp add: batch_predict_def Let_def split_beta)

lemma predict_batches_frame:
  assumes "\<And>m b. weights (snd (compute_batch_utility E m b)) = weights m
                 \<and> optimizer_state (snd (compute_batch_utility E m b)) = optimizer_state m"
  shows "weights (snd (predict_batches E bs self acc)) = weights self
         \<and> optimizer_state (snd (predict_batches E bs self acc)) = optimizer_state self"
proof (induction bs arbitrary: self acc)
  case Nil
  then show ?case by simp
next
  case (Cons p bs)
  obtain b wb where p: "p = (b, wb)" by (cases p)
  obtain r self1 where bp: "batch_predict E self b None = (r, self1)"
    by (cases "batch_predict E self b None")
  from batch_predict_frame [OF assms, of self b None] bp
  have "weights self1 = weights self \<and> optimizer_state self1 = optimizer_state self" by simp
  with Cons.IH [of self1] bp p show ?case
    by (simp split: prod.split)
qed

lemma evaluate_batches_frame:
  assumes "\<And>m b. weights (snd (compute_batch_utility E m b)) = weights m
                 \<and> optimizer_state (snd (compute_batch_utility E m b)) = optimizer_state m"
  shows "weights (snd (evaluate_batches E sw mode bs self acc lb)) = weights self
         \<and> optimizer_state (snd (evaluate_batches E sw mode bs self acc lb)) = optimizer_state self"
proof (induction bs arbitrary: self acc lb)
  case Nil
  then show ?case by simp
next
  case (Cons p bs)
  obtain b wb where p: "p = (b, wb)" by (cases p)
  obtain r self1 where bp: "batch_predict E self b sw = (r, self1)"
    by (cases "batch_predict E self b sw")
  from batch_predict_frame [OF assms, of self b sw] bp
  have "weights self1 = weights self \<and> optimizer_state self1 = optimizer_state self" by simp
  with Cons.IH [of self1] bp p show ?case
    by (simp add: Let_def split: prod.split)
qed


text \<open>
  Claim C10. If \<^verbatim>\<open>compute_batch_utility\<close>, the one method of the object that the
  inference operations call, leaves the parameter tensors and the optimizer state as they
  are (its contract), then so do \<^verbatim>\<open>batch_predict\<close>, \<^verbatim>\<open>predict_probas\<close> and
  \<^verbatim>\<open>evaluate\<close>, on every batch, dataset, batch size and mode, whether they return or
  raise.
\<close>

theorem C10_inference_leaves_parameters:
  assumes "\<And>m b. weights (snd (compute_batch_utility E m b)) = weights m
                 \<and> optimizer_state (snd (compute_batch_utility E m b)) = optimizer_state m"
  shows "weights (snd (batch_predict E self b sw)) = weights self
         \<and> optimizer_state (snd (batch_predict E self b sw)) = optimizer_state self
         \<and> weights (snd (predict_probas E self ds bs)) = weights self
         \<and> optimizer_state (snd (predict_probas E self ds bs)) = optimizer_state self
         \<and> weights (snd (evaluate E self ds sw bs mode)) = weights self
         \<and> optimizer_state (snd (evaluate E self ds sw bs mode)) = optimizer_state self"
  using batch_predict_frame [OF assms, of self b sw]
        predict_batches_frame [OF assms, of "iter_batch E ds False None bs 0" self "[]"]
        evaluate_batches_frame [OF assms, of sw mode "iter_batch E ds False None bs 0" self "[]" None]
  by (simp add: predict_probas_def evaluate_def Let_def split_beta)


theorem C10_inference_leaves_parameters_witness:
  "weights (snd (batch_predict example_substrate example_model (example_batch 2) None)) = 0
   \<and> optimizer_state (snd (batch_predict example_substrate example_model (example_batch 2) None)) = 0
   \<and> weights (snd (predict_probas example_substrate example_model 3 2)) = 0
   \<and> optimizer_state (snd (predict_probas example_substrate example_model 3 2)) = 0
   \<and> weights (snd (evaluate example_substrate example_model 3 None 2 ''eval'')) = 0
   \<and> optimizer_state (snd (evaluate example_substrate example_model 3 None 2 ''eval'')) = 0"
proof -
  have p: "\<And>m b. weights (snd (compute_batch_utility example_substrate m b)) = weights m
                 \<and> optimizer_state (snd (compute_batch_utility example_substrate m b))
                     = optimizer_state m"
    by (simp add: example_substrate_def)
  have w: "weights example_model = 0" "optimizer_state example_model = 0"
    by (simp_all add: example_model_def)
  from C10_inference_leaves_parameters [OF p, where self = example_model
        and b = "example_batch 2" and sw = None and ds = 3 and bs = 2 and mode = "''eval''"]
  show ?thesis by (simp add: w)
qed

text \<open>The writer: what \<^verbatim>\<open>train_step\<close> leaves in the parameters and in the optimizer
  is what the optimizer's update returns.\<close>

lemma train_step_writes:
  assumes "\<And>m b. weights (snd (compute_batch_utility E m b)) = weights m
                 \<and> optimizer_state (snd (compute_batch_utility E m b)) = optimizer_state m"
    and "train_step E self b sw = (Inr l, self')"
  shows "(optimizer_state self', weights self')
           = apply_gradients E (optimizer_state self) (gradient E self b sw) (weights self)"
  using assms(1) [of self b] assms(2)
  by (auto simp: train_step_def Let_def split: prod.splits option.splits)

subsection \<open>The L-BFGS adapter\<close>

lemma spi_shapes:
  "map shape (fst (stitch_partition_indices c i shapes)) = shapes"
  by (induction shapes arbitrary: c i) (simp_all add: Let_def split_beta)

lemma spi_f_part_length:
  "length (snd (stitch_partition_indices c i shapes)) = sum_list (map prod_list shapes)"
  by (induction shapes arbitrary: c i) (simp_all add: Let_def split_beta)

lemma spi_part_bounds:
  "list_all (\<lambda>p. i \<le> p \<and> p < i + length shapes) (snd (stitch_partition_indices c i shapes))"
proof (induction shapes arbitrary: c i)
  case Nil
  then show ?case by simp
next
  case (Cons sh shapes)
  have "list_all (\<lambda>p. Suc i \<le> p \<and> p < Suc i + length shapes)
          (snd (stitch_partition_indices (c + prod_list sh) (Suc i) shapes))"
    by (rule Cons.IH)
  then have "list_all (\<lambda>p. i \<le> p \<and> p < i + length (sh # shapes))
          (snd (stitch_partition_indices (c + prod_list sh) (Suc i) shapes))"
    by (auto simp: list_all_iff)
  then show ?case
    by (auto simp: Let_def split_beta list_all_iff)
qed

lemma spi_pairs:
  assumes "list_all wf_tensor ws"
  shows "concat (map2 (\<lambda>i d. zip (vals i) (vals d))
                   (fst (stitch_partition_indices c i (map shape ws))) ws)
           = zip [c..<c + length (concat (map vals ws))] (concat (map vals ws))
         \<and> list_all2 (\<lambda>i d. shape i = shape d)
              (fst (stitch_partition_indices c i (map shape ws))) ws"
  using assms
proof (induction ws arbitrary: c i)
  case Nil
  then show ?case by simp
next
  case (Cons w ws)
  from Cons.prems have w: "length (vals w) = prod_list (shape w)"
    by (simp add: wf_tensor_def)
  from Cons.prems have ws: "list_all wf_tensor ws"
    by simp
  let ?n = "prod_list (shape w)"
  let ?m = "length (concat (map vals ws))"
  have "[c..<c + (?n + ?m)] = [c..<c + ?n] @ [c + ?n..<c + ?n + ?m]"
    by (metis add.assoc le_add1 upt_add_eq_append)
  then have "zip [c..<c + (?n + ?m)] (vals w @ concat (map vals ws))
          = zip [c..<c + ?n] (vals w) @ zip [c + ?n..<c + ?n + ?m] (concat (map vals ws))"
    using w by simp
  with Cons.IH [OF ws, of "c + ?n" "Suc i"] w show ?case
    by (simp add: Let_def split_beta)
qed

lemma fold_update_range:
  "c + length xs \<le> length acc \<Longrightarrow>
     fold (\<lambda>(j, v) merged. merged[j := v]) (zip [c..<c + length xs] xs) acc
       = take c acc @ xs @ drop (c + length xs) acc"
proof (induction xs arbitrary: c acc)
  case Nil
  then show ?case by simp
next
  case (Cons x xs)
  have r: "[c..<c + length (x # xs)] = c # [Suc c..<Suc c + length xs]"
    by (subst upt_rec) simp
  from Cons.prems have l: "Suc c + length xs \<le> length (acc[c := x])" by simp
  from Cons.prems have c: "c < length acc" by simp
  have "take (Suc c) (acc[c := x]) = take c acc @ [x]"
    using c by (simp add: take_Suc_conv_app_nth)
  moreover have "drop (Suc c + length xs) (acc[c := x]) = drop (Suc (c + length xs)) acc"
    by simp
  ultimately show ?case
    unfolding r using Cons.IH [OF l] by simp
qed

lemma fold_max_range:
  "fold max [c..<c + n] (a::nat) = (if n = 0 then a else max a (c + n - 1))"
proof (induction n arbitrary: c a)
  case 0
  then show ?case by simp
next
  case (Suc n)
  have r: "[c..<c + Suc n] = c # [Suc c..<Suc c + n]"
    by (subst upt_rec) simp
  show ?case
    unfolding r using Suc.IH [of "Suc c" "max c a"] by (auto simp: max_def)
qed

lemma dynamic_stitch_flat:
  assumes "list_all wf_tensor ws"
  shows "dynamic_stitch (fst (stitch_partition_indices 0 i (map shape ws))) ws
           = Inr (concat (map vals ws))"
proof -
  let ?xs = "concat (map vals ws)"
  note p = spi_pairs [OF assms, of 0 i]
  have m: "map fst (zip [0..<length ?xs] ?xs) = [0..<length ?xs]"
    by (simp add: map_fst_zip)
  have s: "(if zip [0..<length ?xs] ?xs = [] then 0
            else Suc (fold max (map fst (zip [0..<length ?xs] ?xs)) 0)) = length ?xs"
    unfolding m using fold_max_range [of 0 "length ?xs" 0]
    by (cases "?xs = []") auto
  have "fold (\<lambda>(j, v) merged. merged[j := v]) (zip [0..<0 + length ?xs] ?xs)
          (replicate (length ?xs) 0) = take 0 (replicate (length ?xs) 0) @ ?xs
             @ drop (0 + length ?xs) (replicate (length ?xs) 0)"
    by (rule fold_update_range) simp
  then have f: "fold (\<lambda>(j, v) merged. merged[j := v]) (zip [0..<length ?xs] ?xs)
          (replicate (length ?xs) 0) = ?xs"
    by simp
  from p have l2: "list_all2 (\<lambda>i d. shape i = shape d)
                     (fst (stitch_partition_indices 0 i (map shape ws))) ws"
    and pe: "concat (map2 (\<lambda>i d. zip (vals i) (vals d))
                   (fst (stitch_partition_indices 0 i (map shape ws))) ws)
           = zip [0..<length ?xs] ?xs"
    by simp_all
  show ?thesis
    unfolding dynamic_stitch_def Let_def pe s f using l2 by simp
qed

lemma filter_zip_replicate_same:
  "length s = n \<Longrightarrow> map fst (filter (\<lambda>(x, p). p = i) (zip s (replicate n i))) = s"
  by (induction s arbitrary: n) auto

lemma filter_zip_none:
  "list_all (\<lambda>p. p \<noteq> k) ps \<Longrightarrow> filter (\<lambda>(x, p). p = k) (zip xs ps) = []"
  by (auto simp: filter_empty_conv list_all_iff dest: set_zip_rightD)

lemma partition_segments:
  assumes "map length segs = map prod_list shapes"
  shows "map (\<lambda>k. map fst (filter (\<lambda>(x, p). p = k)
                  (zip (concat segs) (snd (stitch_partition_indices c i shapes)))))
             [i..<i + length shapes] = segs"
  using assms
proof (induction shapes arbitrary: c i segs)
  case Nil
  then show ?case by simp
next
  case (Cons sh shapes)
  then obtain s segs' where segs: "segs = s # segs'" and s: "length s = prod_list sh"
    and segs': "map length segs' = map prod_list shapes"
    by (cases segs) auto
  let ?n = "prod_list sh"
  let ?part' = "snd (stitch_partition_indices (c + ?n) (Suc i) shapes)"
  have part: "snd (stitch_partition_indices c i (sh # shapes)) = replicate ?n i @ ?part'"
    by (simp add: Let_def split_beta)
  have z: "zip (concat segs) (replicate ?n i @ ?part')
             = zip s (replicate ?n i) @ zip (concat segs') ?part'"
    using s by (simp add: segs)
  have b: "list_all (\<lambda>p. Suc i \<le> p \<and> p < Suc i + length shapes) ?part'"
    by (rule spi_part_bounds)
  then have "list_all (\<lambda>p. p \<noteq> i) ?part'"
    by (auto simp: list_all_iff)
  then have first: "map fst (filter (\<lambda>(x, p). p = i) (zip (concat segs) (replicate ?n i @ ?part'))) = s"
    unfolding z using s by (simp add: filter_zip_replicate_same filter_zip_none)
  have rest: "map (\<lambda>k. map fst (filter (\<lambda>(x, p). p = k) (zip (concat segs) (replicate ?n i @ ?part'))))
                  [Suc i..<Suc i + length shapes]
              = map (\<lambda>k. map fst (filter (\<lambda>(x, p). p = k) (zip (concat segs') ?part')))
                  [Suc i..<Suc i + length shapes]"
  proof (rule map_cong [OF refl])
    fix k assume "k \<in> set [Suc i..<Suc i + length shapes]"
    then have "k \<noteq> i" by auto
    then have "filter (\<lambda>(x, p). p = k) (zip s (replicate ?n i)) = []"
      by (auto simp: filter_empty_conv dest: set_zip_rightD)
    then show "map fst (filter (\<lambda>(x, p). p = k) (zip (concat segs) (replicate ?n i @ ?part')))
               = map fst (filter (\<lambda>(x, p). p = k) (zip (concat segs') ?part'))"
      unfolding z by simp
  qed
  have r: "[i..<i + length (sh # shapes)] = i # [Suc i..<Suc i + length shapes]"
    by (subst upt_rec) simp
  have ih: "map (\<lambda>k. map fst (filter (\<lambda>(x, p). p = k) (zip (concat segs') ?part')))
                  [Suc i..<Suc i + length shapes] = segs'"
    by (rule Cons.IH [OF segs'])
  show ?case
    unfolding part r list.map first rest ih by (simp only: segs)
qed

lemma segments_exist:
  "length flat = sum_list ns \<Longrightarrow> \<exists>segs. flat = concat segs \<and> map length segs = ns"
proof (induction ns arbitrary: flat)
  case Nil
  then show ?case by simp
next
  case (Cons n ns)
  then have "length (drop n flat) = sum_list ns" by simp
  from Cons.IH [OF this] obtain segs where
    "drop n flat = concat segs" "map length segs = ns" by blast
  then have "flat = take n flat @ concat segs"
    by (metis append_take_drop_id)
  moreover from Cons.prems have "length (take n flat) = n"
    by simp
  ultimately have w: "flat = concat (take n flat # segs) \<and> map length (take n flat # segs) = n # ns"
    using \<open>map length segs = ns\<close> by simp
  show ?case
    by (rule exI [where x = "take n flat # segs"]) (rule w)
qed

lemma dynamic_partition_segments:
  assumes "map length segs = map prod_list shapes"
  shows "dynamic_partition (concat segs) (snd (stitch_partition_indices c 0 shapes)) (length shapes)
           = Inr segs"
proof -
  have "length (concat segs) = sum_list (map length segs)"
    by (simp add: length_concat)
  with assms have l: "length (snd (stitch_partition_indices c 0 shapes)) = length (concat segs)"
    by (simp add: spi_f_part_length)
  have b: "list_all (\<lambda>p. p < length shapes) (snd (stitch_partition_indices c 0 shapes))"
    using spi_part_bounds [of 0 shapes c] by (simp add: list_all_iff)
  show ?thesis
    unfolding dynamic_partition_def using l b partition_segments [OF assms, of c 0] by simp
qed

lemma assign_tensors_same:
  "list_all wf_tensor us \<Longrightarrow>
     assign_tensors (length pre) (zip (map shape us) (map vals us)) (pre @ us @ post)
       = Inr (pre @ us @ post)"
proof (induction us arbitrary: pre)
  case Nil
  then show ?case by simp
next
  case (Cons u us)
  from Cons.prems have u: "length (vals u) = prod_list (shape u)" by (simp add: wf_tensor_def)
  from Cons.prems have us: "list_all wf_tensor us" by simp
  have "assign_tensors (length (pre @ [u])) (zip (map shape us) (map vals us)) ((pre @ [u]) @ us @ post)
          = Inr ((pre @ [u]) @ us @ post)"
    by (rule Cons.IH [OF us])
  moreover have e: "\<lparr> shape = shape u, vals = vals u \<rparr> = u"
    by (cases u) simp
  ultimately show ?case
    using u by (simp add: reshape_def e)
qed

lemma assign_tensors_result:
  "assign_tensors i (zip shapes params) ws = Inr ws' \<Longrightarrow> length shapes = length params \<Longrightarrow>
     ws' = take i ws @ map2 (\<lambda>sh p. \<lparr> shape = sh, vals = p \<rparr>) shapes params
             @ drop (i + length shapes) ws
     \<and> list_all2 (\<lambda>sh p. length p = prod_list sh) shapes params"
proof (induction shapes arbitrary: params i ws)
  case Nil
  then show ?case by simp
next
  case (Cons sh shapes)
  then obtain p params' where params: "params = p # params'" and l: "length shapes = length params'"
    by (cases params) auto
  from Cons.prems(1) params have i: "i < length ws"
    by (auto split: if_splits)
  from Cons.prems(1) params i have p: "length p = prod_list sh"
    by (auto simp: reshape_def split: if_splits)
  let ?t = "\<lparr> shape = sh, vals = p \<rparr>"
  from Cons.prems(1) params i p have rec: "assign_tensors (Suc i) (zip shapes params') (ws[i := ?t]) = Inr ws'"
    by (auto simp: reshape_def split: if_splits)
  from Cons.IH [OF rec l] have
    w: "ws' = take (Suc i) (ws[i := ?t]) @ map2 (\<lambda>sh p. \<lparr> shape = sh, vals = p \<rparr>) shapes params'
             @ drop (Suc i + length shapes) (ws[i := ?t])"
    and a: "list_all2 (\<lambda>sh p. length p = prod_list sh) shapes params'"
    by simp_all
  have "take (Suc i) (ws[i := ?t]) = take i ws @ [?t]"
    using i by (simp add: take_Suc_conv_app_nth)
  with w a p show ?case
    by (simp add: params)
qed

lemma evaluate_frame:
  assumes "\<And>m b. weights (snd (compute_batch_utility E m b)) = weights m
                 \<and> optimizer_state (snd (compute_batch_utility E m b)) = optimizer_state m"
  shows "weights (snd (evaluate E self ds sw bs mode)) = weights self"
  using evaluate_batches_frame [OF assms, of sw mode "iter_batch E ds False None bs 0" self "[]" None]
  by (simp add: evaluate_def Let_def split_beta)

lemma lbfgs_train_step_fields:
  "f_idx (lbfgs_train_step self) = fst (stitch_partition_indices 0 0 (map shape (weights self)))"
  "f_part (lbfgs_train_step self) = snd (stitch_partition_indices 0 0 (map shape (weights self)))"
  "f_shapes (lbfgs_train_step self) = map shape (weights self)"
  by (simp_all add: lbfgs_train_step_def Let_def split_beta)

lemma lbfgs_round_trip:
  assumes "list_all wf_tensor (weights self)"
  shows "dynamic_stitch (f_idx (lbfgs_train_step self)) (weights self)
           = Inr (concat (map vals (weights self)))"
    and "assign_new_model_parameters (lbfgs_train_step self) (concat (map vals (weights self))) self
           = Inr self"
proof -
  show "dynamic_stitch (f_idx (lbfgs_train_step self)) (weights self)
           = Inr (concat (map vals (weights self)))"
    unfolding lbfgs_train_step_fields by (rule dynamic_stitch_flat [OF assms])
  from assms have l: "map length (map vals (weights self)) = map prod_list (map shape (weights self))"
    by (simp add: list_all_iff wf_tensor_def)
  have p: "dynamic_partition (concat (map vals (weights self)))
             (snd (stitch_partition_indices 0 0 (map shape (weights self))))
             (length (map shape (weights self))) = Inr (map vals (weights self))"
    by (rule dynamic_partition_segments [OF l])
  have a: "assign_tensors 0 (zip (map shape (weights self)) (map vals (weights self))) (weights self)
             = Inr (weights self)"
    using assign_tensors_same [OF assms, of "[]" "[]"] by simp
  show "assign_new_model_parameters (lbfgs_train_step self) (concat (map vals (weights self))) self
           = Inr self"
    unfolding assign_new_model_parameters_def lbfgs_train_step_fields p using a by simp
qed

lemma map2_tensor_shape:
  "length shs = length ps \<Longrightarrow> map shape (map2 (\<lambda>sh p. \<lparr> shape = sh, vals = p \<rparr>) shs ps) = shs"
  by (induction shs ps rule: list_induct2) simp_all

lemma map2_tensor_vals:
  "length shs = length ps \<Longrightarrow> map vals (map2 (\<lambda>sh p. \<lparr> shape = sh, vals = p \<rparr>) shs ps) = ps"
  by (induction shs ps rule: list_induct2) simp_all

lemma map2_tensor_wf:
  "list_all2 (\<lambda>sh p. length p = prod_list sh) shs ps \<Longrightarrow>
     list_all wf_tensor (map2 (\<lambda>sh p. \<lparr> shape = sh, vals = p \<rparr>) shs ps)"
  by (induction shs ps rule: list_all2_induct) (simp_all add: wf_tensor_def)

lemma assign_result:
  assumes a: "assign_new_model_parameters func p self = Inr self'"
      and m: "matches func self"
  shows "map shape (weights self') = f_shapes func"
    and "list_all wf_tensor (weights self')"
    and "concat (map vals (weights self')) = p"
proof -
  let ?shapes = "f_shapes func"
  from a obtain params where
    dp: "dynamic_partition p (f_part func) (length ?shapes) = Inr params"
    by (cases "dynamic_partition p (f_part func) (length ?shapes)")
       (auto simp: assign_new_model_parameters_def)
  from a dp obtain ws where
    at: "assign_tensors 0 (zip ?shapes params) (weights self) = Inr ws" and w: "weights self' = ws"
    by (cases "assign_tensors 0 (zip ?shapes params) (weights self)")
       (auto simp: assign_new_model_parameters_def)
  from dp have lp: "length p = length (f_part func)" and pl: "length params = length ?shapes"
    by (auto simp: dynamic_partition_def split: if_splits)
  from m have part: "f_part func = snd (stitch_partition_indices 0 0 ?shapes)"
    and sh: "?shapes = map shape (weights self)"
    by (simp_all add: matches_def)
  from lp part have "length p = sum_list (map prod_list ?shapes)"
    by (simp add: spi_f_part_length)
  from segments_exist [OF this] obtain segs where
    segs: "p = concat segs" "map length segs = map prod_list ?shapes" by blast
  from dynamic_partition_segments [OF segs(2), of 0] dp have ps: "params = segs"
    by (simp add: segs(1) part)
  from sh have lw: "length (weights self) = length ?shapes" by simp
  from assign_tensors_result [OF at pl [symmetric]] lw
  have ws: "ws = map2 (\<lambda>sh p. \<lparr> shape = sh, vals = p \<rparr>) ?shapes params"
    and l2: "list_all2 (\<lambda>sh p. length p = prod_list sh) ?shapes params"
    by simp_all
  from w ws map2_tensor_shape [OF pl [symmetric]]
  show "map shape (weights self') = f_shapes func" by simp
  from w ws ps segs(1) map2_tensor_vals [OF pl [symmetric]]
  show "concat (map vals (weights self')) = p" by simp
  from w ws map2_tensor_wf [OF l2]
  show "list_all wf_tensor (weights self')" by simp
qed

lemma matches_weights_update:
  "matches func self \<Longrightarrow> map shape ws = f_shapes func \<Longrightarrow> matches func (self\<lparr>weights := ws\<rparr>)"
  by (simp add: matches_def)

lemma assign_matches:
  assumes a: "assign_new_model_parameters func p self = Inr self'" and m: "matches func self"
  shows "matches func self'"
  using assign_result(1) [OF a m] m by (simp add: matches_def)

lemma lbfgs_f_matches:
  assumes pure: "\<And>m b. weights (snd (compute_batch_utility E m b)) = weights m
                 \<and> optimizer_state (snd (compute_batch_utility E m b)) = optimizer_state m"
      and f: "lbfgs_f E ds sw x (self, func) = Inr (y, self', func')"
      and m: "matches func self"
  shows "matches func' self' \<and> f_shapes func' = f_shapes func"
proof -
  from f obtain self1 where a: "assign_new_model_parameters func x self = Inr self1"
    by (cases "assign_new_model_parameters func x self") (auto simp: lbfgs_f_def)
  obtain r self2 where ev: "evaluate E self1 ds sw (- 1) ''optim'' = (r, self2)"
    by (cases "evaluate E self1 ds sw (- 1) ''optim''")
  from evaluate_frame [OF pure, of self1 ds sw "- 1" "''optim''"] ev
  have w: "weights self2 = weights self1" by simp
  from f a ev have s: "self' = self2"
    and fu: "\<exists>l. func' = func\<lparr>f_iter := f_iter func + 1, f_history := f_history func @ [l]\<rparr>"
    by (auto simp: lbfgs_f_def split: sum.splits)
  from assign_matches [OF a m] w s fu show ?thesis
    by (auto simp: matches_def)
qed

lemma run_minimizer_matches:
  assumes pure: "\<And>m b. weights (snd (compute_batch_utility E m b)) = weights m
                 \<and> optimizer_state (snd (compute_batch_utility E m b)) = optimizer_state m"
  shows "run_minimizer M (lbfgs_f E ds sw) n q (self, func) = Inr (q', self', func') \<Longrightarrow>
         matches func self \<Longrightarrow> matches func' self' \<and> f_shapes func' = f_shapes func"
proof (induction n arbitrary: q self func)
  case 0
  then show ?case by simp
next
  case (Suc n)
  show ?case
  proof (cases "next_query M q")
    case None
    with Suc.prems show ?thesis by simp
  next
    case (Some x)
    with Suc.prems(1) obtain y self1 func1 where
      f: "lbfgs_f E ds sw x (self, func) = Inr (y, self1, func1)"
      and r: "run_minimizer M (lbfgs_f E ds sw) n (observe M q x y) (self1, func1) = Inr (q', self', func')"
      by (cases "lbfgs_f E ds sw x (self, func)") auto
    note step = lbfgs_f_matches [OF pure f Suc.prems(2)]
    from Suc.IH [OF r] step show ?thesis by simp
  qed
qed

lemma lbfgs_train_step_matches: "matches (lbfgs_train_step self) self"
  by (simp add: matches_def lbfgs_train_step_fields)


text \<open>
  Claim C5. For well-formed parameter tensors: flattening them with the adapter's stitch
  indices gives the concatenation of their values, and assigning that vector back with
  the partition indices leaves the object exactly as it was. And whenever
  \<^verbatim>\<open>_fit_with_lbfgs\<close> returns, for any minimizer, the parameters of the object flatten
  to the position the minimizer reported, with the shapes they had: the last assignment
  of line 706 puts the position into the object. (\<^verbatim>\<open>compute_batch_utility\<close> is assumed
  to keep its contract, as in claim C10.)
\<close>

theorem C5_lbfgs_round_trip:
  assumes wf: "list_all wf_tensor (weights self)"
      and pure: "\<And>m b. weights (snd (compute_batch_utility E m b)) = weights m
                 \<and> optimizer_state (snd (compute_batch_utility E m b)) = optimizer_state m"
  shows "dynamic_stitch (f_idx (lbfgs_train_step self)) (weights self)
           = Inr (concat (map vals (weights self)))
         \<and> assign_new_model_parameters (lbfgs_train_step self) (concat (map vals (weights self))) self
           = Inr self
         \<and> (\<forall>res. fit_with_lbfgs E M self ds ep sw = Inr res \<longrightarrow>
               dynamic_stitch (f_idx (lbfgs_train_step self)) (weights (fitted_model res))
                 = Inr (results_position res)
               \<and> map shape (weights (fitted_model res)) = map shape (weights self))"
proof (intro conjI allI impI)
  show "dynamic_stitch (f_idx (lbfgs_train_step self)) (weights self)
           = Inr (concat (map vals (weights self)))"
    by (rule lbfgs_round_trip(1) [OF wf])
  show "assign_new_model_parameters (lbfgs_train_step self) (concat (map vals (weights self))) self
           = Inr self"
    by (rule lbfgs_round_trip(2) [OF wf])
next
  fix res
  assume fit: "fit_with_lbfgs E M self ds ep sw = Inr res"
  let ?F = "lbfgs_train_step self"
  let ?n = "case ep of None \<Rightarrow> epochs (hyper self) | Some e \<Rightarrow> e"
  let ?init = "concat (map vals (weights self))"
  have st: "dynamic_stitch (f_idx ?F) (weights self) = Inr ?init"
    by (rule lbfgs_round_trip(1) [OF wf])
  from fit st obtain q self1 func1 where
    run: "lbfgs_minimize M (lbfgs_f E ds sw) ?init ?n (tolerance (hyper self)) (self, ?F)
            = Inr (q, self1, func1)"
    by (cases "lbfgs_minimize M (lbfgs_f E ds sw) ?init ?n (tolerance (hyper self)) (self, ?F)")
       (auto simp: fit_with_lbfgs_def Let_def)
  from fit st run obtain self2 where
    fin: "assign_new_model_parameters func1 (position M q) self1 = Inr self2"
    and res: "res = \<lparr> fit_history = f_history func1, results_position = position M q,
                      fitted_model = self2 \<rparr>"
    by (cases "assign_new_model_parameters func1 (position M q) self1")
       (auto simp: fit_with_lbfgs_def Let_def)
  from run have "matches func1 self1 \<and> f_shapes func1 = f_shapes ?F"
    unfolding lbfgs_minimize_def
    by (rule run_minimizer_matches [OF pure _ lbfgs_train_step_matches])
  then have m1: "matches func1 self1" and sh1: "f_shapes func1 = map shape (weights self)"
    by (simp_all add: lbfgs_train_step_fields)
  note ar = assign_result [OF fin m1]
  from ar(1) sh1 have sh2: "map shape (weights self2) = map shape (weights self)"
    by simp
  from dynamic_stitch_flat [OF ar(2), of 0] ar(3) sh2
  have "dynamic_stitch (f_idx ?F) (weights self2) = Inr (position M q)"
    by (simp add: lbfgs_train_step_fields)
  then show "dynamic_stitch (f_idx ?F) (weights (fitted_model res)) = Inr (results_position res)"
    by (simp add: res)
  from sh2 show "map shape (weights (fitted_model res)) = map shape (weights self)"
    by (simp add: res)
qed

theorem C5_lbfgs_round_trip_witness:
  "dynamic_stitch (f_idx (lbfgs_train_step example_tensor_model)) (weights example_tensor_model)
     = Inr [Fin 1, Fin 2, Fin 3, Fin 4]
   \<and> assign_new_model_parameters (lbfgs_train_step example_tensor_model)
        [Fin 1, Fin 2, Fin 3, Fin 4] example_tensor_model = Inr example_tensor_model
   \<and> (\<exists>res. fit_with_lbfgs example_tensor_substrate example_minimizer example_tensor_model 3
               (Some 2) None = Inr res
          \<and> results_position res = [Fin (- 1), Fin 0, Fin 1, Fin 2]
          \<and> fit_history res = [Fin 3, Fin 3]
          \<and> dynamic_stitch (f_idx (lbfgs_train_step example_tensor_model))
               (weights (fitted_model res)) = Inr [Fin (- 1), Fin 0, Fin 1, Fin 2])"
proof -
  have wf: "list_all wf_tensor (weights example_tensor_model)"
    by (simp add: example_tensor_model_def wf_tensor_def)
  have pure: "\<And>m b. weights (snd (compute_batch_utility example_tensor_substrate m b)) = weights m
                 \<and> optimizer_state (snd (compute_batch_utility example_tensor_substrate m b))
                     = optimizer_state m"
    by (simp add: example_tensor_substrate_def)
  have c: "concat (map vals (weights example_tensor_model)) = [Fin 1, Fin 2, Fin 3, Fin 4]"
    by (simp add: example_tensor_model_def)
  note t1 = C5_lbfgs_round_trip [OF wf pure]
  note t2 = t1 [where M = example_minimizer and ds = 3 and ep = "Some 2" and sw = None]
  have "map_sum id (\<lambda>r. (results_position r, fit_history r))
          (fit_with_lbfgs example_tensor_substrate example_minimizer example_tensor_model 3
               (Some 2) None)
        = Inr ([Fin (- 1), Fin 0, Fin 1, Fin 2], [Fin 3, Fin 3])"
    by code_simp
  then obtain res where
    r: "fit_with_lbfgs example_tensor_substrate example_minimizer example_tensor_model 3
               (Some 2) None = Inr res"
    and p: "results_position res = [Fin (- 1), Fin 0, Fin 1, Fin 2]"
    and h: "fit_history res = [Fin 3, Fin 3]"
    by (cases "fit_with_lbfgs example_tensor_substrate example_minimizer example_tensor_model 3
               (Some 2) None") auto
  from t2 r p h show ?thesis by (auto simp: c)
qed

subsection \<open>The prior over the latent classes\<close>

lemma is_fin_list: "list_all is_fin ls \<Longrightarrow> \<exists>xs. ls = map Fin xs"
proof (induction ls)
  case Nil
  then show ?case by simp
next
  case (Cons l ls)
  then obtain xs where "ls = map Fin xs" by auto
  moreover from Cons.prems obtain x where "l = Fin x" by (cases l) auto
  ultimately have e: "l # ls = map Fin (x # xs)" by simp
  show ?case by (rule exI [where x = "x # xs"]) (rule e)
qed

lemma sum_list_divide: "sum_list (map (\<lambda>a. a / z) xs) = sum_list xs / (z::real)"
  by (induction xs) (simp_all add: add_divide_distrib)











lemma map_raise_length: "map_raise f xs = Inr ys \<Longrightarrow> length ys = length xs"
  by (induction xs arbitrary: ys) (auto split: sum.splits)

lemma expectation_frame:
  "latent_logits (snd (expectation L self ds)) = latent_logits self"
  "n_latent_classes (snd (expectation L self ds)) = n_latent_classes self"
  by (auto simp: expectation_def Let_def split: option.splits sum.splits)

lemma expectation_ncols:
  assumes "expectation L self ds = (Inr (w, l), self1)" and "latent_logits self = Some ls"
  shows "ncols w \<le> length ls" and "0 < ncols w"
proof -
  from assms obtain ms pp weighted where
    "map_raise (\<lambda>model. m_predict_probas L model ds) ms = Inr pp"
    and mr: "map_raise (\<lambda>(latent, proba).
                case gather_choices proba (lc_len L ds) (dataset_choices L ds) of
                  Inl e \<Rightarrow> Inl e
                | Inr chosen \<Rightarrow> Inr (map (\<lambda>x. fl_mul latent x) chosen)) (zip ls pp) = Inr weighted"
    and st: "\<exists>s. stack_axis1 weighted (lc_len L ds) = Inr s \<and> ncols s = ncols w"
    by (auto simp: expectation_def Let_def split: option.splits sum.splits if_splits)
  from st obtain s where s: "stack_axis1 weighted (lc_len L ds) = Inr s" "ncols s = ncols w"
    by auto
  from s have n: "ncols w = length weighted" and ne: "weighted \<noteq> []"
    by (auto simp: stack_axis1_def split: if_splits)
  from map_raise_length [OF mr] have "length weighted = min (length ls) (length pp)" by simp
  with n ne show "ncols w \<le> length ls" and "0 < ncols w" by auto
qed

lemma fit_classes_raises:
  "q \<le> ncols w \<Longrightarrow> ncols w < n \<Longrightarrow> fst (fit_classes L ds w q n ms) \<noteq> None"
proof (induction L ds w q n ms rule: fit_classes.induct)
  case (1 L dataset w q n ms)
  show ?case
  proof (cases "q < length ms")
    case False
    with "1.prems" show ?thesis by (subst fit_classes.simps) simp
  next
    case True
    note ql = this
    show ?thesis
    proof (cases "column w q")
      case (Inl e)
      with "1.prems" ql show ?thesis by (subst fit_classes.simps) simp
    next
      case (Inr sample_weight)
      then have qc: "q < ncols w" by (auto simp: column_def split: if_splits)
      show ?thesis
      proof (cases "m_fit L (ms ! q) dataset sample_weight")
        case (Inl e)
        with "1.prems" ql Inr show ?thesis by (subst fit_classes.simps) simp
      next
        case (Inr fitted_m)
        from "1.prems" have qn: "q < n" by simp
        from qc have "Suc q \<le> ncols w" by simp
        from "1.IH" [OF _ _ \<open>column w q = Inr sample_weight\<close> Inr this "1.prems"(2)] qn ql
        have "fst (fit_classes L dataset w (Suc q) n (ms[q := fitted_m])) \<noteq> None" by simp
        with qn ql \<open>column w q = Inr sample_weight\<close> Inr show ?thesis
          by (subst fit_classes.simps) simp
      qed
    qed
  qed
qed

lemma maximization_frame:
  "latent_logits (snd (maximization L self ds)) = latent_logits self"
  "n_latent_classes (snd (maximization L self ds)) = n_latent_classes self"
  by (auto simp: maximization_def Let_def split: option.splits prod.splits)

lemma maximization_raises:
  assumes "lc_weights self = Some w" and "ncols w < n_latent_classes self"
  shows "isl (fst (maximization L self ds))"
proof -
  obtain r ms where fc: "fit_classes L ds w 0 (n_latent_classes self)
                           (map (model_class L) (model_parameters self)) = (r, ms)"
    by (cases "fit_classes L ds w 0 (n_latent_classes self)
                 (map (model_class L) (model_parameters self))")
  from fit_classes_raises [of 0 w "n_latent_classes self" L ds
         "map (model_class L) (model_parameters self)"] assms(2) fc
  obtain e where "r = Some e" by auto
  with assms(1) fc show ?thesis
    by (simp add: maximization_def Let_def)
qed

lemma em_loop_keeps_logits:
  assumes "latent_logits self = Some ls" and "length ls < n_latent_classes self"
  shows "latent_logits (snd (em_loop L ds r self hl hs)) = Some ls"
proof (cases r)
  case 0
  with assms show ?thesis by simp
next
  case (Suc r')
  obtain res self1 where ex: "expectation L self ds = (res, self1)"
    by (cases "expectation L self ds")
  from expectation_frame [of L self ds] ex assms
  have l1: "latent_logits self1 = Some ls" and n1: "n_latent_classes self1 = n_latent_classes self"
    by simp_all
  show ?thesis
  proof (cases res)
    case (Inl e)
    with ex Suc l1 show ?thesis by simp
  next
    case (Inr wl)
    obtain w l where wl: "wl = (w, l)" by (cases wl)
    from expectation_ncols(1) [OF ex [unfolded Inr wl] assms(1)] assms(2) n1
    have "ncols w < n_latent_classes (self1\<lparr>lc_weights := Some w\<rparr>)" by simp
    from maximization_raises [OF _ this, of L ds]
    obtain e where m: "fst (maximization L (self1\<lparr>lc_weights := Some w\<rparr>) ds) = Inl e"
      by (cases "fst (maximization L (self1\<lparr>lc_weights := Some w\<rparr>) ds)") auto
    from maximization_frame(1) [of L "self1\<lparr>lc_weights := Some w\<rparr>" ds] l1
    have "latent_logits (snd (maximization L (self1\<lparr>lc_weights := Some w\<rparr>) ds)) = Some ls"
      by simp
    with m ex Inr wl Suc show ?thesis
      by (cases "maximization L (self1\<lparr>lc_weights := Some w\<rparr>) ds") simp
  qed
qed

lemma em_fit_keeps_logits:
  assumes "latent_logits self = Some ls" and "length ls < n_latent_classes self"
  shows "latent_logits (snd (em_fit L self ds)) = Some ls"
proof (cases "models self")
  case None
  with assms show ?thesis by (simp add: em_fit_def)
next
  case (Some ms)
  obtain r ms1 where im: "init_models L ds 0 ms = (r, ms1)"
    by (cases "init_models L ds 0 ms")
  show ?thesis
  proof (cases r)
    case None
    from em_loop_keeps_logits [of "self\<lparr>models := Some ms1\<rparr>" ls L ds "lc_epochs self" "[]" "[]"] assms
    have "latent_logits (snd (em_loop L ds (lc_epochs self) (self\<lparr>models := Some ms1\<rparr>) [] [])) = Some ls"
      by simp
    with Some im None show ?thesis by (simp add: em_fit_def)
  next
    case (Some e)
    with \<open>models self = Some ms\<close> im assms show ?thesis by (simp add: em_fit_def)
  qed
qed

lemma em_loop_raises:
  assumes "latent_logits self = Some ls" and "length ls < n_latent_classes self"
  shows "isl (fst (em_loop L ds (Suc r) self hl hs))"
proof -
  obtain res self1 where ex: "expectation L self ds = (res, self1)"
    by (cases "expectation L self ds")
  from expectation_frame [of L self ds] ex assms
  have n1: "n_latent_classes self1 = n_latent_classes self"
    by simp_all
  show ?thesis
  proof (cases res)
    case (Inl e)
    with ex show ?thesis by simp
  next
    case (Inr wl)
    obtain w l where wl: "wl = (w, l)" by (cases wl)
    from expectation_ncols(1) [OF ex [unfolded Inr wl] assms(1)] assms(2) n1
    have "ncols w < n_latent_classes (self1\<lparr>lc_weights := Some w\<rparr>)" by simp
    from maximization_raises [OF _ this, of L ds]
    obtain e where m: "fst (maximization L (self1\<lparr>lc_weights := Some w\<rparr>) ds) = Inl e"
      by (cases "fst (maximization L (self1\<lparr>lc_weights := Some w\<rparr>) ds)") auto
    with ex Inr wl show ?thesis
      by (cases "maximization L (self1\<lparr>lc_weights := Some w\<rparr>) ds") simp
  qed
qed

lemma example_latent_model_built:
  "BaseLatentClassModel_init 2 (Inr (Fin (1 / 2))) ''EM'' 3 None False (1 / 10 ^ 6) (1 / 10 ^ 3)
     = Inr (projr (BaseLatentClassModel_init 2 (Inr (Fin (1 / 2))) ''EM'' 3 None False
                     (1 / 10 ^ 6) (1 / 10 ^ 3)) :: (fl, fl) latent_model)"
  "lc_instantiate example_latent_substrate
     (projr (BaseLatentClassModel_init 2 (Inr (Fin (1 / 2))) ''EM'' 3 None False
               (1 / 10 ^ 6) (1 / 10 ^ 3))) = Inr example_latent_model"
  "n_latent_classes example_latent_model = 2"
  "latent_logits example_latent_model = Some [Fin (1 / 100)]"
  "models example_latent_model = Some [Fin (1 / 2), Fin (1 / 2)]"
  "lc_normalize_non_buy example_latent_model = None"
  by (simp_all add: example_latent_model_def BaseLatentClassModel_init_def lc_instantiate_def
        example_latent_substrate_def Let_def numeral_2_eq_2)


lemma lc_fit_em_never_runs:
  assumes "str_lower (fit_method self) = ''em''"
  shows "fst (lc_fit L self ds sw) = Inl TypeError"
    and "latent_logits (snd (lc_fit L self ds sw)) = latent_logits self"
    and "models (snd (lc_fit L self ds sw)) = models self"
    and "lc_weights (snd (lc_fit L self ds sw)) = lc_weights self"
  using assms by (simp_all add: lc_fit_def Let_def bind_keywords_def em_fit_parameters_def)





subsection \<open>The mixture's batch_predict\<close>

lemma class_probabilities_loop_result:
  "class_probabilities_loop L (Some nb) us avail prior i rest acc = Inr ps \<Longrightarrow>
     ps = acc @ map (\<lambda>j. scale3 (lc_softmax_with_availabilities L us avail nb) (prior ! j))
                    [i..<i + length rest]"
proof (induction rest arbitrary: i acc)
  case Nil
  then show ?case by simp
next
  case (Cons u rest)
  from Cons.prems have i: "i < length prior"
    by (auto simp: Let_def split: if_splits)
  with Cons.prems have
    "class_probabilities_loop L (Some nb) us avail prior (Suc i) rest
       (acc @ [scale3 (lc_softmax_with_availabilities L us avail nb) (prior ! i)]) = Inr ps"
    by (simp add: Let_def)
  from Cons.IH [OF this] have
    "ps = (acc @ [scale3 (lc_softmax_with_availabilities L us avail nb) (prior ! i)])
          @ map (\<lambda>j. scale3 (lc_softmax_with_availabilities L us avail nb) (prior ! j))
                [Suc i..<Suc i + length rest]" .
  moreover have "[i..<i + length (u # rest)] = i # [Suc i..<Suc i + length rest]"
    by (subst upt_rec) simp
  ultimately show ?case by simp
qed


lemma lc_batch_predict_without_attribute:
  assumes "lc_normalize_non_buy self = None" and "models self = Some ms" and "ms \<noteq> []"
    and "latent_logits self = Some ls"
  shows "lc_batch_predict L self b sw = Inl AttributeError"
  using assms by (cases ms) (simp_all add: lc_batch_predict_def lc_compute_batch_utility_def)


text \<open>
  Claim C1, evaluated on the code: on a mixture of two classes built by the constructor
  and \<^verbatim>\<open>instantiate\<close>, \<^verbatim>\<open>batch_predict\<close> raises \<^verbatim>\<open>AttributeError\<close> (no line assigns
  \<^verbatim>\<open>self.normalize_non_buy\<close>) and returns no probabilities. Where the attribute exists,
  lemma \<open>class_probabilities_loop_result\<close> shows what is summed: for every class the
  softmax of the utilities of all classes, not of that class.
\<close>

theorem C1_batch_predict_raises:
  "lc_batch_predict example_latent_substrate example_latent_model (example_batch 1) None
     = Inl AttributeError"
  by (simp add: lc_batch_predict_def lc_compute_batch_utility_def example_latent_model_built)


subsection \<open>fit with the EM method\<close>

text \<open>
  Claim C2, evaluated on the code: \<^verbatim>\<open>fit\<close> with \<^verbatim>\<open>fit_method="EM"\<close> raises
  \<^verbatim>\<open>TypeError\<close>, because \<^verbatim>\<open>_em_fit\<close> has no parameter \<^verbatim>\<open>sample_weight\<close>; no sub-model
  is fitted and no E-step or M-step runs (lemma \<open>lc_fit_em_never_runs\<close> for every object).
\<close>

theorem C2_fit_em_raises:
  "lc_fit example_latent_substrate example_latent_model [0] None
     = (Inl TypeError,
        example_latent_model
          \<lparr>minf := Some (fl_log (Fin (1 / 10 ^ 3))),
           printed := [''Expectation-Maximization estimation algorithm not well implemented yet.'']\<rparr>)"
proof -
  have "str_lower ''EM'' = ''em''"
    by code_simp
  moreover have "fit_method example_latent_model = ''EM''"
    by (simp add: example_latent_model_def BaseLatentClassModel_init_def lc_instantiate_def Let_def)
  moreover have "printed example_latent_model = []"
    by (simp add: example_latent_model_def BaseLatentClassModel_init_def lc_instantiate_def Let_def)
  ultimately show ?thesis
    by (simp add: lc_fit_def Let_def bind_keywords_def em_fit_parameters_def)
qed


subsection \<open>The E-step\<close>

text \<open>Normalizing a row of finite masses whose sum is not zero gives a row that sums
  to 1.\<close>

lemma responsibilities_sum_to_one:
  assumes "sum_list xs \<noteq> 0"
  shows "reduce_sum (map (\<lambda>x. fl_div x (reduce_sum (map Fin xs))) (map Fin xs)) = Fin 1"
proof -
  have "map (\<lambda>x. fl_div x (reduce_sum (map Fin xs))) (map Fin xs)
          = map Fin (map (\<lambda>a. a / sum_list xs) xs)"
    using assms by (simp add: reduce_sum_Fin)
  then have "reduce_sum (map (\<lambda>x. fl_div x (reduce_sum (map Fin xs))) (map Fin xs))
          = Fin (sum_list (map (\<lambda>a. a / sum_list xs) xs))"
    by (simp only: reduce_sum_Fin)
  with assms show ?thesis
    by (simp add: sum_list_divide)
qed

text \<open>
  Claim C6, evaluated on the code: in the first E-step of a mixture of two classes
  (logit 0.01 from \<^verbatim>\<open>instantiate\<close>, both sub-models giving the observed choice
  probability 1/2), the responsibilities have one column, not two: \<^verbatim>\<open>zip\<close> pairs the
  one logit with the first class and drops the second, and the weight is the logit
  itself, not the prior derived from it.
\<close>

theorem C6_expectation_drops_a_class:
  "n_latent_classes example_latent_model = 2
   \<and> fst (expectation example_latent_substrate example_latent_model [0])
       = Inr (\<lparr> ncols = 1, rows = [[Fin 1]] \<rparr>, Fin (ln (50000001 / 10 ^ 10)))"
  by (simp add: expectation_def example_latent_model_built example_latent_substrate_def
        gather_choices_def stack_axis1_def reduce_sum_def Let_def)


subsection \<open>NaN in the updated prior\<close>

text \<open>Running \<^verbatim>\<open>__init__\<close> on a fresh object is the constructor.\<close>

lemma init_on_fresh_object:
  "BaseLatentClassModel_init n mp fm ep opt aec tol lr
     = BaseLatentClassModel_init_on
         \<lparr> n_latent_classes = n0, model_parameters = mp0, fit_method = fm0, lc_epochs = ep0,
           add_exit_choice = aec0, lc_tolerance = tol0, lc_optimizer = opt0, lc_lr = lr0,
           lc_instantiated = i0, lc_normalize_non_buy = None, latent_logits = None,
           models = None, lc_weights = None, minf = None, printed = [] \<rparr>
         n mp fm ep opt aec tol lr"
  by (cases mp) (simp_all add: BaseLatentClassModel_init_def BaseLatentClassModel_init_on_def)

lemma example_em_model_built:
  "BaseLatentClassModel_init_on example_latent_model 1 (Inr (Fin (1 / 2))) ''EM'' 3 None
     False (1 / 10 ^ 6) (1 / 10 ^ 3) = Inr example_em_model"
  "n_latent_classes example_em_model = 1"
  "lc_epochs example_em_model = 3"
  "latent_logits example_em_model = Some [Fin (1 / 100)]"
  "models example_em_model = Some [Fin (1 / 2), Fin (1 / 2)]"
  "printed example_em_model = []"
  by (simp_all add: example_em_model_def BaseLatentClassModel_init_on_def
        example_latent_model_def BaseLatentClassModel_init_def lc_instantiate_def
        example_latent_substrate_def Let_def numeral_2_eq_2)

lemma example_em_run:
  "em_fit example_diverging_substrate example_em_model [0]
     = (Inr ([[NaN]], [NaN]),
        example_em_model
          \<lparr>latent_logits := Some [NaN], models := Some [NaN],
           lc_weights := Some \<lparr> ncols = 1, rows = [[NaN]] \<rparr>,
           printed := [''Nan in probas'', ''Nan in logits'']\<rparr>)"
  by (simp add: em_fit_def example_em_model_def BaseLatentClassModel_init_on_def
        example_latent_model_def BaseLatentClassModel_init_def lc_instantiate_def
        example_diverging_substrate_def example_latent_substrate_def numeral_2_eq_2
        numeral_3_eq_3 expectation_def maximization_def gather_choices_def stack_axis1_def
        reduce_sum_def column_def column_sums_def Let_def)

lemma example_em_run_one_epoch:
  "em_fit example_diverging_substrate example_em_model_one_epoch [0]
     = (Inr ([[NaN]], [NaN]),
        example_em_model_one_epoch
          \<lparr>latent_logits := Some [NaN], models := Some [NaN],
           lc_weights := Some \<lparr> ncols = 1, rows = [[NaN]] \<rparr>,
           printed := [''Nan in probas'', ''Nan in logits'']\<rparr>)"
  "lc_epochs example_em_model_one_epoch = 1"
  by (simp_all add: em_fit_def example_em_model_one_epoch_def BaseLatentClassModel_init_on_def
        example_latent_model_def BaseLatentClassModel_init_def lc_instantiate_def
        example_diverging_substrate_def example_latent_substrate_def numeral_2_eq_2
        expectation_def maximization_def gather_choices_def stack_axis1_def
        reduce_sum_def column_def column_sums_def Let_def)

lemma expectation_prints_no_diagnostic:
  "filter (\<lambda>l. l = ''Nan in logits'') (printed (snd (expectation L self ds)))
     = filter (\<lambda>l. l = ''Nan in logits'') (printed self)"
  by (auto simp: expectation_def Let_def split: option.splits sum.splits)

lemma maximization_prints_nothing:
  "printed (snd (maximization L self ds)) = printed self"
  by (auto simp: maximization_def Let_def split: option.splits prod.splits)

lemma expectation_needs_logits:
  "expectation L self ds = (Inr wl, self1) \<Longrightarrow> \<exists>ls. latent_logits self = Some ls"
  by (auto simp: expectation_def Let_def split: option.splits sum.splits if_splits)

lemma em_loop_needs_a_weight_per_class:
  assumes "em_loop L ds (Suc r) self hl0 hs0 = (Inr x, self')"
  shows "\<exists>ls. latent_logits self = Some ls \<and> n_latent_classes self \<le> length ls"
proof -
  from assms obtain wl self1 where "expectation L self ds = (Inr wl, self1)"
    by (cases "expectation L self ds") (auto split: sum.splits)
  from expectation_needs_logits [OF this] obtain ls where ls: "latent_logits self = Some ls"
    by blast
  have "n_latent_classes self \<le> length ls"
  proof (rule ccontr)
    assume "\<not> n_latent_classes self \<le> length ls"
    then have "length ls < n_latent_classes self" by simp
    from em_loop_raises [OF ls this, of L ds r hl0 hs0] assms show False by simp
  qed
  with ls show ?thesis by blast
qed

lemma em_loop_histories:
  "em_loop L ds r self hl0 hs0 = (Inr (hl, hs), self') \<Longrightarrow>
     \<exists>new news. hl = hl0 @ new \<and> hs = hs0 @ news \<and> length news = length new
       \<and> length new \<le> r
       \<and> (new = [] \<longrightarrow> self' = self \<and> r = 0)
       \<and> list_all (\<lambda>p. \<not> list_ex isnan p) (butlast new)
       \<and> (new \<noteq> [] \<longrightarrow> latent_logits self' = Some (last new))
       \<and> (length new < r \<longrightarrow> list_ex isnan (last new))
       \<and> (new \<noteq> [] \<and> list_ex isnan (last new) \<longrightarrow>
            printed self' \<noteq> [] \<and> last (printed self') = ''Nan in logits'')
       \<and> filter (\<lambda>l. l = ''Nan in logits'') (printed self')
           = filter (\<lambda>l. l = ''Nan in logits'') (printed self)
             @ (if new \<noteq> [] \<and> list_ex isnan (last new) then [''Nan in logits''] else [])"
proof (induction r arbitrary: self hl0 hs0)
  case 0
  then show ?case by simp
next
  case (Suc r)
  let ?d = "\<lambda>l. l = ''Nan in logits''"
  from Suc.prems obtain w l self1 where ex: "expectation L self ds = (Inr (w, l), self1)"
    by (cases "expectation L self ds") (auto split: sum.splits)
  from Suc.prems ex obtain p self3 where
    mx: "maximization L (self1\<lparr>lc_weights := Some w\<rparr>) ds = (Inr p, self3)"
    by (cases "maximization L (self1\<lparr>lc_weights := Some w\<rparr>) ds") (auto split: sum.splits)
  let ?self4 = "self3\<lparr>latent_logits := Some p\<rparr>"
  from expectation_prints_no_diagnostic [of L self ds] ex
  have p1: "filter ?d (printed self1) = filter ?d (printed self)" by simp
  from maximization_prints_nothing [of L "self1\<lparr>lc_weights := Some w\<rparr>" ds] mx
  have p3: "printed self3 = printed self1" by simp
  from p1 p3 have p4: "filter ?d (printed ?self4) = filter ?d (printed self)" by simp
  show ?case
  proof (cases "list_ex isnan p")
    case True
    with Suc.prems ex mx have "hl = hl0 @ [p]" "hs = hs0 @ [l]"
      and "self' = ?self4\<lparr>printed := printed ?self4 @ [''Nan in logits'']\<rparr>"
      by (simp_all add: Let_def)
    with True p4 show ?thesis
      by (intro exI [where x = "[p]"] exI [where x = "[l]"]) simp
  next
    case False
    with Suc.prems ex mx have "em_loop L ds r ?self4 (hl0 @ [p]) (hs0 @ [l]) = (Inr (hl, hs), self')"
      by (simp add: Let_def)
    from Suc.IH [OF this] obtain new news where
      n: "hl = (hl0 @ [p]) @ new" "hs = (hs0 @ [l]) @ news" "length news = length new"
         "length new \<le> r"
         "new = [] \<longrightarrow> self' = ?self4 \<and> r = 0"
         "list_all (\<lambda>p. \<not> list_ex isnan p) (butlast new)"
         "new \<noteq> [] \<longrightarrow> latent_logits self' = Some (last new)"
         "length new < r \<longrightarrow> list_ex isnan (last new)"
         "new \<noteq> [] \<and> list_ex isnan (last new) \<longrightarrow>
            printed self' \<noteq> [] \<and> last (printed self') = ''Nan in logits''"
         "filter ?d (printed self')
           = filter ?d (printed ?self4)
             @ (if new \<noteq> [] \<and> list_ex isnan (last new) then [''Nan in logits''] else [])"
      by blast
    show ?thesis
    proof (intro exI [where x = "p # new"] exI [where x = "l # news"] conjI)
      show "hl = hl0 @ p # new" using n(1) by simp
      show "hs = hs0 @ l # news" using n(2) by simp
      show "length (l # news) = length (p # new)" using n(3) by simp
      show "length (p # new) \<le> Suc r" using n(4) by simp
      show "p # new = [] \<longrightarrow> self' = self \<and> Suc r = 0" by simp
      show "list_all (\<lambda>p. \<not> list_ex isnan p) (butlast (p # new))"
        using n(6) False by simp
      show "p # new \<noteq> [] \<longrightarrow> latent_logits self' = Some (last (p # new))"
        using n(5) n(7) by (cases "new = []") simp_all
      show "length (p # new) < Suc r \<longrightarrow> list_ex isnan (last (p # new))"
        using n(5) n(8) by (cases "new = []") simp_all
      show "p # new \<noteq> [] \<and> list_ex isnan (last (p # new)) \<longrightarrow>
            printed self' \<noteq> [] \<and> last (printed self') = ''Nan in logits''"
        using n(9) False by (cases "new = []") simp_all
      show "filter ?d (printed self')
           = filter ?d (printed self)
             @ (if p # new \<noteq> [] \<and> list_ex isnan (last (p # new))
                then [''Nan in logits''] else [])"
        using n(10) p4 False by (cases "new = []") simp_all
    qed
  qed
qed


text \<open>
  Claim C7 as stated fails. The object is built by the methods of the class alone: the
  constructor for two classes, \<^verbatim>\<open>instantiate\<close>, and \<^verbatim>\<open>__init__\<close> again for one class;
  its prior weight is 0.01. With sub-models whose fit diverges, the updated prior is NaN
  in the first iteration of \<^verbatim>\<open>_em_fit\<close>; the loop ends there, and the object is left
  with the NaN prior in place of the weight it had.
\<close>

theorem C7_nan_prior_is_kept:
  "BaseLatentClassModel_init_on example_latent_model 1 (Inr (Fin (1 / 2))) ''EM'' 3 None
     False (1 / 10 ^ 6) (1 / 10 ^ 3) = Inr example_em_model
   \<and> latent_logits example_em_model = Some [Fin (1 / 100)]
   \<and> fst (em_fit example_diverging_substrate example_em_model [0]) = Inr ([[NaN]], [NaN])
   \<and> latent_logits (snd (em_fit example_diverging_substrate example_em_model [0])) = Some [NaN]"
  using example_em_model_built(1,4) by (simp add: example_em_run)

text \<open>
  Claim C7, amended. Whenever \<^verbatim>\<open>_em_fit\<close> returns: it has recorded at most \<^verbatim>\<open>epochs\<close>
  priors and as many losses; when \<^verbatim>\<open>epochs\<close> is not zero it has recorded one at least,
  and the object held a weight for every class when it was called (from fewer, the first
  M-step raises). No prior before the last recorded one contains a NaN, and when fewer
  than \<^verbatim>\<open>epochs\<close> priors were recorded the last one does: a NaN prior ends the loop in
  the iteration that produced it, and nothing else ends it early. The diagnostic is
  printed exactly when the last recorded prior contains a NaN, also in the last
  iteration of the budget, and it is then the last line printed. And
  \<^verbatim>\<open>self.latent_logits\<close> is the last recorded prior, the NaN one included: nothing is
  restored.
\<close>

theorem C7_nan_prior_ends_em_fit:
  assumes "em_fit L self ds = (Inr (hl, hs), self')"
  shows "length hl \<le> lc_epochs self \<and> length hs = length hl
         \<and> (0 < lc_epochs self \<longrightarrow>
              hl \<noteq> [] \<and> (\<exists>ls. latent_logits self = Some ls \<and> n_latent_classes self \<le> length ls))
         \<and> list_all (\<lambda>p. \<not> list_ex isnan p) (butlast hl)
         \<and> (length hl < lc_epochs self \<longrightarrow> list_ex isnan (last hl))
         \<and> (hl \<noteq> [] \<and> list_ex isnan (last hl) \<longrightarrow>
              printed self' \<noteq> [] \<and> last (printed self') = ''Nan in logits'')
         \<and> filter (\<lambda>l. l = ''Nan in logits'') (printed self')
             = filter (\<lambda>l. l = ''Nan in logits'') (printed self)
               @ (if hl \<noteq> [] \<and> list_ex isnan (last hl) then [''Nan in logits''] else [])
         \<and> (hl \<noteq> [] \<longrightarrow> latent_logits self' = Some (last hl))"
proof -
  from assms obtain ms where ms: "models self = Some ms"
    by (cases "models self") (auto simp: em_fit_def)
  from assms ms obtain ms1 where
    lp: "em_loop L ds (lc_epochs self) (self\<lparr>models := Some ms1\<rparr>) [] [] = (Inr (hl, hs), self')"
    by (cases "init_models L ds 0 ms") (auto simp: em_fit_def split: option.splits)
  have pre: "\<exists>ls. latent_logits self = Some ls \<and> n_latent_classes self \<le> length ls"
    if "0 < lc_epochs self"
  proof -
    from that obtain r where "lc_epochs self = Suc r" by (cases "lc_epochs self") auto
    with lp em_loop_needs_a_weight_per_class [of L ds r "self\<lparr>models := Some ms1\<rparr>" "[]" "[]"]
    show ?thesis by simp
  qed
  from em_loop_histories [OF lp] pre show ?thesis
    by auto
qed


theorem C7_nan_prior_ends_em_fit_witness:
  "em_fit example_diverging_substrate example_em_model [0]
     = (Inr ([[NaN]], [NaN]),
        example_em_model
          \<lparr>latent_logits := Some [NaN], models := Some [NaN],
           lc_weights := Some \<lparr> ncols = 1, rows = [[NaN]] \<rparr>,
           printed := [''Nan in probas'', ''Nan in logits'']\<rparr>)
   \<and> length [[NaN]] < lc_epochs example_em_model
   \<and> n_latent_classes example_em_model \<le> length [Fin (1 / 100 :: real)]
   \<and> list_ex isnan (last [[NaN]])
   \<and> last (printed (snd (em_fit example_diverging_substrate example_em_model [0])))
       = ''Nan in logits''
   \<and> filter (\<lambda>l. l = ''Nan in logits'')
        (printed (snd (em_fit example_diverging_substrate example_em_model [0])))
       = [''Nan in logits'']
   \<and> latent_logits (snd (em_fit example_diverging_substrate example_em_model [0]))
       = Some (last [[NaN]])
   \<and> fst (em_fit example_diverging_substrate example_em_model_one_epoch [0])
       = Inr ([[NaN]], [NaN])
   \<and> length [[NaN]] = lc_epochs example_em_model_one_epoch
   \<and> last (printed (snd (em_fit example_diverging_substrate example_em_model_one_epoch [0])))
       = ''Nan in logits''"
proof -
  note b = example_em_model_built
  from C7_nan_prior_ends_em_fit [OF example_em_run] have
    "last (printed (snd (em_fit example_diverging_substrate example_em_model [0])))
       = ''Nan in logits''"
    and "filter (\<lambda>l. l = ''Nan in logits'')
        (printed (snd (em_fit example_diverging_substrate example_em_model [0])))
       = [''Nan in logits'']"
    and "latent_logits (snd (em_fit example_diverging_substrate example_em_model [0]))
       = Some (last [[NaN]])"
    by (simp_all add: b example_em_run)
  moreover from C7_nan_prior_ends_em_fit [OF example_em_run_one_epoch(1)] have
    "last (printed (snd (em_fit example_diverging_substrate example_em_model_one_epoch [0])))
       = ''Nan in logits''"
    by (simp add: example_em_run_one_epoch)
  ultimately show ?thesis
    by (simp add: b example_em_run example_em_run_one_epoch)
qed

end
